(* ===== verification/Prelude.thy ===== *)
theory Prelude
  imports Complex_Main
begin

text \<open>
  Shared vocabulary of the Pocket-Spectrometer model: the outcome of a piece of
  MicroPython code (it keeps running, exits, or raises), and the Python built-ins that
  \<^verbatim>\<open>src/Software/main.py\<close> calls on numbers and strings: \<open>str()\<close> of an
  \<open>int\<close> and of a one-decimal \<open>float\<close>, \<open>int()\<close> of a \<open>float\<close> (truncation),
  \<open>round(x, 1)\<close>, \<open>max()\<close> of a list, and \<open>int()\<close> of a digit string (only used to
  state the round trip of \<open>str()\<close>). A Python float is the rational number it denotes;
  \<open>Floats\<close> rounds the results of float operations to the interpreter's float format.
\<close>

named_theorems py_simps "evaluation rules for the Python built-ins of the model"

type_synonym color = nat \<comment> \<open>24-bit RGB value, as the hex literals of the source\<close>

section \<open>Outcomes of Python code\<close>

text \<open>
  The exceptions the program can raise and does not catch: an I/O error of the sensor
  bus (\<open>OSError\<close> from the I2C driver while reading spectral data), and the
  \<open>NameError\<close> of \<^verbatim>\<open>sys.exit(1)\<close> on line 24, where the name \<open>sys\<close> is not bound.
  The end of the program after the \<open>KeyboardInterrupt\<close> handler is \<open>Exited 0\<close>.
\<close>

datatype exn = OSError | NameError

datatype 's outcome =
    Running 's
  | Exited int 's
  | Raised exn 's

primrec outcome_state :: "'s outcome \<Rightarrow> 's" where
  "outcome_state (Running s) = s"
| "outcome_state (Exited n s) = s"
| "outcome_state (Raised e s) = s"

section \<open>str() of a non-negative int\<close>

definition digit_char :: "nat \<Rightarrow> char" where
  "digit_char d = ''0123456789'' ! d"

fun py_str_nat :: "nat \<Rightarrow> string" where
  "py_str_nat n =
     (if n < 10 then [digit_char n] else py_str_nat (n div 10) @ [digit_char (n mod 10)])"

declare py_str_nat.simps [simp del]

definition py_str_int :: "int \<Rightarrow> string" where
  "py_str_int i = (if i < 0 then CHR ''-'' # py_str_nat (nat (- i)) else py_str_nat (nat i))"

section \<open>int() of a digit string\<close>

definition digit_val :: "char \<Rightarrow> nat option" where
  "digit_val c = (let k = of_char c in if 48 \<le> k \<and> k < 58 then Some (k - 48) else None)"

fun parse_digits :: "nat \<Rightarrow> string \<Rightarrow> nat option" where
  "parse_digits acc [] = Some acc"
| "parse_digits acc (c # cs) =
     (case digit_val c of None \<Rightarrow> None | Some d \<Rightarrow> parse_digits (10 * acc + d) cs)"

definition py_parse_nat :: "string \<Rightarrow> nat option" where
  "py_parse_nat s = (if s = [] then None else parse_digits 0 s)"

section \<open>Floats: int(), round(x, 1) and str() of a one-decimal value\<close>

text \<open>\<open>int(x)\<close> of a float truncates towards zero.\<close>

definition py_trunc :: "rat \<Rightarrow> int" where
  "py_trunc q = (if 0 \<le> q then \<lfloor>q\<rfloor> else - \<lfloor>- q\<rfloor>)"

text \<open>\<open>round(x, 1)\<close>: nearest multiple of \<open>1/10\<close>, ties to even.\<close>

definition round_half_even :: "rat \<Rightarrow> int" where
  "round_half_even r =
     (let f = \<lfloor>r\<rfloor>; d = r - of_int f
      in if d < 1/2 then f else if 1/2 < d then f + 1 else if even f then f else f + 1)"

definition py_round1 :: "rat \<Rightarrow> rat" where
  "py_round1 q = of_int (round_half_even (q * 10)) / 10"

text \<open>
  \<open>str()\<close> of a float that is a multiple of \<open>1/10\<close> (every float this program
  prints is one: \<open>0.5\<close> and the results of \<open>round(x, 1)\<close>): integer part, a point,
  one decimal digit, as Python's shortest round-trip representation gives.
\<close>

definition py_str_float1 :: "rat \<Rightarrow> string" where
  "py_str_float1 q =
     (let t = nat \<lfloor>\<bar>q\<bar> * 10\<rfloor>
      in (if q < 0 then ''-'' else []) @ py_str_nat (t div 10) @ ''.'' @ [digit_char (t mod 10)])"

section \<open>max() of a list\<close>

text \<open>
  Python's \<open>max\<close> raises \<open>ValueError\<close> on an empty list; the program only applies it
  to its nine-element list of readings, so the empty case is never taken.
\<close>

fun list_max :: "nat list \<Rightarrow> nat" where
  "list_max [] = 0"
| "list_max [x] = x"
| "list_max (x # xs) = max x (list_max xs)"

section \<open>Lemmas\<close>

subsection \<open>Digits and the str()/int() round trip\<close>

lemma digit_val_digit_char [simp]: "digit_val (digit_char d) = Some d" if "d < 10"
proof -
  have "\<forall>k \<in> set [0..<10]. digit_val (digit_char k) = Some k" by code_simp
  with that show ?thesis by simp
qed

lemma parse_digits_append:
  "parse_digits acc (xs @ ys) =
     (case parse_digits acc xs of None \<Rightarrow> None | Some n \<Rightarrow> parse_digits n ys)"
  by (induction xs arbitrary: acc) (auto split: option.splits)

lemma py_str_nat_not_Nil [simp]: "py_str_nat n \<noteq> []"
  by (subst py_str_nat.simps) simp

lemma parse_digits_py_str_nat:
  "parse_digits acc (py_str_nat n) = Some (acc * 10 ^ length (py_str_nat n) + n)"
proof (induction n arbitrary: acc rule: py_str_nat.induct)
  case (1 n)
  show ?case
  proof (cases "n < 10")
    case True
    then show ?thesis by (simp add: py_str_nat.simps [of n])
  next
    case False
    have "n = 10 * (n div 10) + n mod 10" by simp
    with False "1.IH" [of acc] show ?thesis
      by (simp add: py_str_nat.simps [of n] parse_digits_append algebra_simps)
  qed
qed

lemma py_parse_py_str_nat [simp]: "py_parse_nat (py_str_nat n) = Some n"
  by (simp add: py_parse_nat_def parse_digits_py_str_nat)

lemma length_py_str_nat_le: "length (py_str_nat n) \<le> Suc n"
proof (induction n rule: py_str_nat.induct)
  case (1 n)
  then show ?case
    by (cases "n < 10") (simp_all add: py_str_nat.simps [of n])
qed

lemma py_str_nat_small [py_simps]: "n < 10 \<Longrightarrow> py_str_nat n = [digit_char n]"
  by (simp add: py_str_nat.simps)

lemma py_str_nat_large [py_simps]:
  "10 \<le> n \<Longrightarrow> py_str_nat n = py_str_nat (n div 10) @ [digit_char (n mod 10)]"
  by (simp add: py_str_nat.simps [of n])

declare digit_char_def [py_simps] py_str_int_def [py_simps] py_str_float1_def [py_simps]
  py_round1_def [py_simps] round_half_even_def [py_simps]

subsection \<open>Truncation\<close>

lemma py_trunc_of_nat [simp]: "py_trunc (of_nat n) = int n"
  by (simp add: py_trunc_def)

subsection \<open>round() of an integer\<close>

lemma round_half_even_of_int [simp]: "round_half_even (of_int k) = k"
  by (simp add: round_half_even_def)

subsection \<open>max() of a list\<close>

lemma list_max_ge: "x \<in> set xs \<Longrightarrow> x \<le> list_max xs"
  by (induction xs rule: list_max.induct) auto

lemma list_max_in: "xs \<noteq> [] \<Longrightarrow> list_max xs \<in> set xs"
  by (induction xs rule: list_max.induct) (auto simp: max_def)

lemma list_max_Max: "xs \<noteq> [] \<Longrightarrow> list_max xs = Max (set xs)"
  by (rule Max_eqI [symmetric]) (auto simp: list_max_ge list_max_in)

lemma list_max_eq_0: "list_max xs = 0 \<longleftrightarrow> (\<forall>x \<in> set xs. x = 0)"
  by (induction xs rule: list_max.induct) auto

end
