(* ===== verification/Floats.thy ===== *)
theory Floats
  imports Prelude "HOL-Library.Log_Nat"
begin

text \<open>
  Python floats are IEEE 754 binary floating-point values with round-to-nearest, ties
  to even. The model keeps a float as the rational number it denotes and applies
  \<open>fl_prec n\<close>, rounding to the nearest value \<open>m * 2 ^ k\<close> with an \<open>n\<close>-bit significand,
  after every operation the program performs on floats: a float literal,
  \<open>float(int)\<close>, a true division and a product. The exponent is computed exactly from
  the numerator and denominator (\<open>log2_floor\<close>), so the rounding is executable.
  Overflow to infinity and subnormal results are not modelled: the program's floats
  lie between \<open>2 ^ -16\<close> and \<open>2 ^ 24\<close>. The lemmas hold for every width \<open>n\<close>: the
  rounded value is a nearest float (no \<open>m * 2 ^ k\<close> with \<open>|m| < 2 ^ n\<close> is closer, as
  the IEEE standard's \<open>round\<close> specifies), its relative error is at most \<open>2 ^ -n\<close>, it is
  exact on integers below \<open>2 ^ n\<close>, and \<open>int(b * (c / M))\<close> is the integer quotient up to
  one where the exact value is an integer.
\<close>

section \<open>Rounding to n significand bits\<close>

text \<open>\<open>\<lfloor>log2 q\<rfloor>\<close> of a positive rational, from the bit lengths of its numerator and denominator.\<close>

definition log2_floor :: "rat \<Rightarrow> int" where
  "log2_floor q =
     (let (a, b) = quotient_of q; t = bitlen a - bitlen b
      in if power_int 2 t \<le> q then t else t - 1)"

text \<open>Round to the nearest float, ties to even: \<open>n\<close> significant bits from the leading one.\<close>

definition fl_prec :: "nat \<Rightarrow> rat \<Rightarrow> rat" where
  "fl_prec n q =
     (if q = 0 then 0
      else let x = \<bar>q\<bar>; p = log2_floor x - (int n - 1)
           in sgn q * (of_int (round_half_even (x / power_int 2 p)) * power_int 2 p))"

text \<open>
  The interpreter's float format. \<^verbatim>\<open>import display\<close> and \<^verbatim>\<open>display.TFT()\<close> are the
  M5Stack MicroPython firmware for the ESP32, whose port stores a float as a C
  \<open>float\<close>: IEEE binary32, a 24-bit significand. (A double-precision build, or
  CPython, has 53 bits; the renderer's height theorems are proved for every width
  from 24 bits up.)
\<close>

definition float_sig :: nat where
  "float_sig = 24"

definition fl :: "rat \<Rightarrow> rat" where
  "fl q = fl_prec float_sig q"

section \<open>Lemmas\<close>

subsection \<open>Powers of two and the exponent\<close>

lemma two_powi_nonneg_exp: "0 \<le> k \<Longrightarrow> (2::rat) powi k = of_int (2 ^ nat k)"
  by (simp add: power_int_nonneg_exp)

lemma two_powi_pos [simp]: "0 < (2::rat) powi k"
  by simp

lemma two_powi_diff: "(2::rat) powi (m - n) = 2 powi m / 2 powi n"
  by (rule power_int_diff) simp

lemma two_powi_add: "(2::rat) powi (m + n) = 2 powi m * 2 powi n"
  by (rule power_int_add) simp

lemma two_powi_le: "m \<le> n \<Longrightarrow> (2::rat) powi m \<le> 2 powi n"
  by (rule power_int_increasing) simp_all

lemma bitlen_rat_bounds:
  assumes "0 < a"
  shows "(2::rat) powi (bitlen a - 1) \<le> of_int a" "of_int a < (2::rat) powi bitlen a"
    "1 \<le> bitlen a"
proof -
  have l: "1 \<le> bitlen a" using assms bitlen_eq_zero_iff [of a] bitlen_nonneg [of a] by linarith
  from bitlen_bounds [OF assms] have "2 ^ nat (bitlen a - 1) \<le> a" "a < 2 ^ nat (bitlen a)" by simp_all
  then have "(of_int (2 ^ nat (bitlen a - 1)) :: rat) \<le> of_int a"
    "of_int a < (of_int (2 ^ nat (bitlen a)) :: rat)"
    by (simp_all only: of_int_le_iff of_int_less_iff)
  with l show "(2::rat) powi (bitlen a - 1) \<le> of_int a" "of_int a < (2::rat) powi bitlen a"
    by (simp_all add: two_powi_nonneg_exp)
  show "1 \<le> bitlen a" by (rule l)
qed

lemma log2_floor_bounds:
  assumes "0 < q"
  shows "(2::rat) powi log2_floor q \<le> q \<and> q < 2 powi (log2_floor q + 1)"
proof -
  obtain a b where ab: "quotient_of q = (a, b)" by (cases "quotient_of q")
  have qab: "q = of_int a / of_int b" using quotient_of_div [OF ab] .
  have b: "0 < b" using quotient_of_denom_pos [OF ab] .
  have a: "0 < a" using assms b by (simp add: qab zero_less_divide_iff)
  define t where "t = bitlen a - bitlen b"
  note ba = bitlen_rat_bounds [OF a] and bb = bitlen_rat_bounds [OF b]
  have lo: "2 powi (t - 1) < q"
  proof -
    have "(2::rat) powi (t - 1) = 2 powi (bitlen a - 1) / 2 powi bitlen b"
      by (simp add: t_def two_powi_diff [symmetric] algebra_simps)
    also have "\<dots> < 2 powi (bitlen a - 1) / of_int b"
      using bb(2) b by (intro divide_strict_left_mono) simp_all
    also have "\<dots> \<le> of_int a / of_int b" using ba(1) b by (simp add: divide_right_mono)
    finally show ?thesis by (simp add: qab)
  qed
  have hi: "q < 2 powi (t + 1)"
  proof -
    have "q < 2 powi bitlen a / of_int b" using ba(2) b by (simp add: qab divide_strict_right_mono)
    also have "\<dots> \<le> 2 powi bitlen a / 2 powi (bitlen b - 1)"
      using bb(1) b by (intro divide_left_mono) simp_all
    also have "\<dots> = 2 powi (t + 1)"
      by (simp add: t_def two_powi_diff [symmetric] algebra_simps)
    finally show ?thesis .
  qed
  have lf: "log2_floor q = (if 2 powi t \<le> q then t else t - 1)"
    by (simp add: log2_floor_def ab t_def)
  show ?thesis using lo hi by (simp add: lf not_le)
qed

subsection \<open>Rounding to an integer\<close>

lemma round_half_even_cases:
  "round_half_even y = \<lfloor>y\<rfloor> \<and> y - of_int \<lfloor>y\<rfloor> \<le> 1/2
   \<or> round_half_even y = \<lfloor>y\<rfloor> + 1 \<and> 1/2 \<le> y - of_int \<lfloor>y\<rfloor>"
  by (auto simp: round_half_even_def Let_def)

lemma round_half_even_nearest:
  "\<bar>of_int (round_half_even y) - y\<bar> \<le> \<bar>of_int n - (y::rat)\<bar>"
proof -
  have f: "of_int \<lfloor>y\<rfloor> \<le> y" "y < of_int \<lfloor>y\<rfloor> + 1" using floor_correct [of y] by simp_all
  have "of_int n \<le> (of_int \<lfloor>y\<rfloor> :: rat) \<or> of_int \<lfloor>y\<rfloor> + 1 \<le> (of_int n :: rat)"
    by (cases "n \<le> \<lfloor>y\<rfloor>") (simp_all flip: of_int_add)
  with f round_half_even_cases [of y] show ?thesis by auto
qed

lemma round_half_even_error: "\<bar>of_int (round_half_even y) - y\<bar> \<le> (1/2 :: rat)"
proof -
  have "of_int \<lfloor>y\<rfloor> \<le> y" "y < of_int \<lfloor>y\<rfloor> + 1" using floor_correct [of y] by simp_all
  with round_half_even_cases [of y] show ?thesis by auto
qed

subsection \<open>Rounding a positive value\<close>

lemma abs_scaled: "0 < P \<Longrightarrow> \<bar>r * P - q\<bar> = \<bar>r - q / P\<bar> * (P :: rat)"
proof -
  assume P: "0 < P"
  then have "r * P - q = (r - q / P) * P" by (simp add: field_simps)
  with P show ?thesis by (simp add: abs_mult)
qed

lemma fl_prec_pos_eq:
  "0 < q \<Longrightarrow> fl_prec n q =
     of_int (round_half_even (q / 2 powi (log2_floor q - (int n - 1)))) * 2 powi (log2_floor q - (int n - 1))"
  by (simp add: fl_prec_def Let_def)

lemma fl_prec_pos_grid_nearest:
  assumes "0 < q"
  shows "\<bar>fl_prec n q - q\<bar> \<le> \<bar>of_int m * 2 powi (log2_floor q - (int n - 1)) - q\<bar>"
proof -
  define P :: rat where "P = 2 powi (log2_floor q - (int n - 1))"
  have P: "0 < P" by (simp add: P_def)
  have "\<bar>fl_prec n q - q\<bar> = \<bar>of_int (round_half_even (q / P)) - q / P\<bar> * P"
    using assms P by (simp add: fl_prec_pos_eq P_def [symmetric] abs_scaled)
  also have "\<dots> \<le> \<bar>of_int m - q / P\<bar> * P"
    using P by (intro mult_right_mono round_half_even_nearest) simp
  also have "\<dots> = \<bar>of_int m * P - q\<bar>"
    using P by (simp add: abs_scaled)
  finally show ?thesis by (simp add: P_def)
qed

lemma two_powi_int: "(2::rat) powi int n = 2 ^ n"
  by (simp add: power_int_of_nat)

lemma fl_prec_pos_error:
  assumes "0 < q"
  shows "\<bar>fl_prec n q - q\<bar> \<le> q / 2 ^ n"
proof -
  define P :: rat where "P = 2 powi (log2_floor q - (int n - 1))"
  have P: "0 < P" by (simp add: P_def)
  have "\<bar>fl_prec n q - q\<bar> = \<bar>of_int (round_half_even (q / P)) - q / P\<bar> * P"
    using assms P by (simp add: fl_prec_pos_eq P_def [symmetric] abs_scaled)
  also have "\<dots> \<le> 1/2 * P"
    using P by (intro mult_right_mono round_half_even_error) simp
  also have "\<dots> = 2 powi log2_floor q / 2 powi int n"
    by (simp add: P_def two_powi_diff two_powi_add)
  also have "\<dots> \<le> q / 2 ^ n"
    using log2_floor_bounds [OF assms] by (simp add: divide_right_mono two_powi_int)
  finally show ?thesis .
qed

lemma fl_prec_uminus: "fl_prec n (- q) = - fl_prec n q"
  by (simp add: fl_prec_def Let_def)

lemma fl_prec_error: "\<bar>fl_prec n q - q\<bar> \<le> \<bar>q\<bar> / 2 ^ n"
proof (cases "0 < q")
  case True
  then show ?thesis using fl_prec_pos_error by simp
next
  case False
  show ?thesis
  proof (cases "q = 0")
    case True
    then show ?thesis by (simp add: fl_prec_def)
  next
    case q0: False
    with False have "0 < - q" by simp
    have "\<bar>q\<bar> = - q" using False q0 by simp
    with fl_prec_pos_error [OF \<open>0 < - q\<close>] show ?thesis
      by (simp add: fl_prec_uminus abs_minus_commute)
  qed
qed

lemma fl_prec_pos_nearest:
  assumes q: "0 < q" and n: "0 < n" and m: "\<bar>m\<bar> < 2 ^ n"
  shows "\<bar>fl_prec n q - q\<bar> \<le> \<bar>of_int m * 2 powi k - q\<bar>"
proof -
  define L where "L = log2_floor q"
  define p where "p = L - (int n - 1)"
  have bL: "2 powi L \<le> q" using log2_floor_bounds [OF q] by (simp add: L_def)
  show ?thesis
  proof (cases "p \<le> k")
    case True
    have "(2::rat) powi k = 2 powi (k - p) * 2 powi p" by (simp flip: two_powi_add)
    also have "\<dots> = of_int (2 ^ nat (k - p)) * 2 powi p" using True by (simp add: two_powi_nonneg_exp)
    finally have eq: "of_int m * 2 powi k = of_int (m * 2 ^ nat (k - p)) * (2::rat) powi p" by simp
    have g: "\<bar>fl_prec n q - q\<bar> \<le> \<bar>of_int (m * 2 ^ nat (k - p)) * 2 powi p - q\<bar>"
      unfolding p_def L_def by (rule fl_prec_pos_grid_nearest [OF q])
    show ?thesis unfolding eq by (rule g)
  next
    case False
    have "\<bar>of_int m :: rat\<bar> < 2 powi int n"
      using m by (simp add: two_powi_int flip: of_int_abs)
    then have "\<bar>of_int m * 2 powi k\<bar> < 2 powi int n * (2::rat) powi k"
      by (simp add: abs_mult)
    also have "\<dots> = 2 powi (int n + k)" by (simp add: two_powi_add)
    also have "\<dots> \<le> 2 powi L" using False by (intro two_powi_le) (simp add: p_def)
    finally have d: "\<bar>of_int m * 2 powi k\<bar> < (2::rat) powi L" .
    obtain n' where n': "n = Suc n'" using n by (cases n) auto
    have "of_int (2 ^ (n - 1)) * (2::rat) powi p = 2 powi int n' * 2 powi p"
      by (simp add: n' two_powi_int)
    also have "\<dots> = 2 powi (int n' + p)" by (simp add: two_powi_add)
    also have "\<dots> = 2 powi L" by (simp add: p_def n')
    finally have "of_int (2 ^ (n - 1)) * (2::rat) powi p = 2 powi L" .
    then have "\<bar>fl_prec n q - q\<bar> \<le> \<bar>2 powi L - q\<bar>"
      using fl_prec_pos_grid_nearest [OF q, of n "2 ^ (n - 1)"] by (simp add: L_def p_def)
    with bL d show ?thesis by linarith
  qed
qed

lemma fl_prec_exact:
  assumes "0 < n" "\<bar>m\<bar> < 2 ^ n"
  shows "fl_prec n (of_int m * 2 powi k) = of_int m * 2 powi k"
proof -
  have pos: "fl_prec n d = d" if "0 < d" "d = of_int m' * 2 powi k" "\<bar>m'\<bar> < 2 ^ n" for d m'
    using fl_prec_pos_nearest [OF that(1) assms(1) that(3), of k] that(2) by simp
  consider "0 < m" | "m = 0" | "m < 0" by linarith
  then show ?thesis
  proof cases
    case 1
    then show ?thesis using assms by (intro pos) (auto simp: zero_less_mult_iff)
  next
    case 2
    then show ?thesis by (simp add: fl_prec_def)
  next
    case 3
    have "fl_prec n (of_int (- m) * 2 powi k) = of_int (- m) * 2 powi k"
      by (rule pos [OF _ refl]) (use 3 assms in \<open>auto simp: zero_less_mult_iff mult_less_0_iff\<close>)
    then show ?thesis by (simp add: fl_prec_uminus)
  qed
qed

lemma fl_prec_nearest:
  assumes "0 < n" "\<bar>m\<bar> < 2 ^ n"
  shows "\<bar>fl_prec n q - q\<bar> \<le> \<bar>of_int m * 2 powi k - q\<bar>"
proof -
  consider "0 < q" | "q = 0" | "q < 0" by linarith
  then show ?thesis
  proof cases
    case 1
    then show ?thesis using fl_prec_pos_nearest [OF _ assms] by blast
  next
    case 2
    then show ?thesis by (simp add: fl_prec_def)
  next
    case 3
    then have "0 < - q" "\<bar>- m\<bar> < 2 ^ n" using assms by simp_all
    from fl_prec_pos_nearest [OF this(1) assms(1) this(2), of k] show ?thesis
      by (simp add: fl_prec_uminus abs_minus_commute)
  qed
qed

lemma fl_prec_of_nat: "0 < n \<Longrightarrow> k < 2 ^ n \<Longrightarrow> fl_prec n (of_nat k) = of_nat k"
  using fl_prec_exact [of n "int k" 0] by simp

lemma fl_prec_nonneg: "0 \<le> q \<Longrightarrow> 0 \<le> fl_prec n q"
proof -
  assume q: "0 \<le> q"
  have "q - fl_prec n q \<le> \<bar>q\<bar> / 2 ^ n"
    using fl_prec_error [of n q] abs_ge_minus_self [of "fl_prec n q - q"] by linarith
  moreover have "\<bar>q\<bar> / 2 ^ n \<le> \<bar>q\<bar> / 1"
    by (intro divide_left_mono) simp_all
  moreover have "\<bar>q\<bar> = q" using q by simp
  ultimately show ?thesis by simp
qed

text \<open>The platform format: the model's \<open>fl\<close> is exact on the program's ints.\<close>

lemma fl_of_nat [simp]: "k < 2 ^ 24 \<Longrightarrow> fl (of_nat k) = of_nat k"
  by (simp add: fl_def float_sig_def fl_prec_of_nat)

lemma fl_nonneg: "0 \<le> q \<Longrightarrow> 0 \<le> fl q"
  by (simp add: fl_def fl_prec_nonneg)

subsection \<open>A scaled integer quotient\<close>

text \<open>
  \<open>int(b * (c / M))\<close> in \<open>n\<close>-bit floating point, for \<open>b \<le> M\<close>: two roundings of relative
  error \<open>2 ^ -n\<close> each move the product by at most \<open>c * (2 * 2 ^ n + 1) / 4 ^ n\<close>; when
  that is below \<open>1 / M\<close> the result is the integer quotient \<open>b * c div M\<close>, unless the
  exact value is an integer, which the computed value may miss from below by one.
\<close>

lemma fl_prec_scaled_floor:
  fixes b c M :: nat
  assumes M: "0 < M" and b: "b \<le> M" and n: "0 < n" "b < 2 ^ n"
    and small: "c * M * (2 * 2 ^ n + 1) < 2 ^ n * 2 ^ n"
  defines "y \<equiv> fl_prec n (fl_prec n (of_nat b) * fl_prec n (of_nat c / of_nat M))"
  shows "0 \<le> y \<and> (\<lfloor>y\<rfloor> = int (b * c div M)
    \<or> b * c mod M = 0 \<and> \<lfloor>y\<rfloor> = int (b * c div M) - 1)"
proof -
  define q :: rat where "q = of_nat c / of_nat M"
  define s where "s = fl_prec n q"
  define x where "x = of_nat b * q"
  define t where "t = of_nat b * s"
  define N where "N = b * c div M"
  define r where "r = b * c mod M"
  define E :: rat where "E = 2 ^ n"
  have E: "0 < E" by (simp add: E_def)
  have Mq: "(0::rat) < of_nat M" using M by simp
  have q0: "0 \<le> q" by (simp add: q_def)
  have yt': "y = fl_prec n t" using n by (simp add: y_def t_def s_def q_def fl_prec_of_nat)
  have sq: "\<bar>s - q\<bar> \<le> q / E" using fl_prec_error [of n q] q0 by (simp add: s_def E_def)
  have t0: "0 \<le> t" using fl_prec_nonneg [OF q0] by (simp add: t_def s_def)
  have y0: "0 \<le> y" using fl_prec_nonneg [OF t0] by (simp add: yt')
  have tx: "\<bar>t - x\<bar> \<le> x / E"
  proof -
    have "\<bar>t - x\<bar> = of_nat b * \<bar>s - q\<bar>" by (simp add: t_def x_def abs_mult right_diff_distrib [symmetric])
    also have "\<dots> \<le> of_nat b * (q / E)" using sq by (intro mult_left_mono) simp_all
    finally show ?thesis by (simp add: x_def)
  qed
  have yt: "\<bar>y - t\<bar> \<le> t / E" using fl_prec_error [of n t] t0 by (simp add: yt' E_def)
  have x0: "0 \<le> x" using q0 by (simp add: x_def)
  have xc: "x \<le> of_nat c"
  proof -
    have "x = of_nat b * of_nat c / of_nat M" by (simp add: x_def q_def)
    also have "\<dots> \<le> of_nat M * of_nat c / of_nat M"
      using b Mq by (intro divide_right_mono mult_right_mono) simp_all
    finally show ?thesis using Mq by simp
  qed
  have "t \<le> x + x / E" using tx unfolding abs_le_iff by simp
  then have "t / E \<le> (x + x / E) / E" using E by (simp add: divide_right_mono)
  then have "\<bar>y - x\<bar> \<le> x / E + (x + x / E) / E" using tx yt unfolding abs_le_iff by linarith
  also have "\<dots> = x * (2 * E + 1) / (E * E)" using E by (simp add: field_simps)
  also have "\<dots> \<le> of_nat c * (2 * E + 1) / (E * E)"
    using xc E by (intro divide_right_mono mult_right_mono) simp_all
  finally have "\<bar>y - x\<bar> \<le> of_nat c * (2 * E + 1) / (E * E)" .
  then have err: "y - x \<le> of_nat c * (2 * E + 1) / (E * E)" "x - y \<le> of_nat c * (2 * E + 1) / (E * E)"
    unfolding abs_le_iff by linarith+
  have "(of_nat (c * M * (2 * 2 ^ n + 1)) :: rat) < of_nat (2 ^ n * 2 ^ n)"
    using small by (simp only: of_nat_less_iff)
  then have cM: "of_nat c * of_nat M * (2 * E + 1) < E * E"
    unfolding E_def by (simp only: of_nat_mult of_nat_add of_nat_power of_nat_numeral of_nat_1)
  have small': "of_nat c * (2 * E + 1) / (E * E) < 1 / (of_nat M :: rat)"
    using cM Mq E by (simp add: divide_less_eq less_divide_eq mult.commute mult.left_commute)
  have "b * c = N * M + r" by (simp add: N_def r_def)
  then have "(of_nat (b * c) :: rat) = of_nat (N * M + r)" by (simp only:)
  then have "of_nat b * of_nat c = of_nat N * of_nat M + (of_nat r :: rat)" by simp
  then have xn: "x = of_nat N + of_nat r / of_nat M"
    using Mq by (simp add: x_def q_def add_divide_distrib)
  have rM: "r < M" using M by (simp add: r_def)
  show ?thesis
  proof (cases "r = 0")
    case False
    have "1 / of_nat M \<le> (of_nat r / of_nat M :: rat)" using False Mq by (simp add: divide_right_mono)
    moreover have "of_nat r / of_nat M \<le> 1 - 1 / (of_nat M :: rat)"
    proof -
      have "of_nat r \<le> of_nat M - (1::rat)" using rM by linarith
      then show ?thesis using Mq by (simp add: field_simps)
    qed
    ultimately have "of_nat N \<le> y" "y < of_nat N + 1"
      using err small' xn by linarith+
    then have "\<lfloor>y\<rfloor> = int N" by (intro floor_unique) simp_all
    then show ?thesis using y0 by (simp add: N_def)
  next
    case True
    have "1 / of_nat M \<le> (1::rat)" using M by simp
    moreover have "x = of_nat N" using xn True by simp
    ultimately have "of_nat N - 1 < y" "y < of_nat N + 1"
      using err small' by linarith+
    then have lo: "of_int (int N - 1) < y" and hi: "y < of_int (int N) + 1" by simp_all
    have "\<lfloor>y\<rfloor> = int N \<or> \<lfloor>y\<rfloor> = int N - 1"
    proof (cases "of_int (int N) \<le> y")
      case True
      then show ?thesis using hi floor_unique by blast
    next
      case False
      then have "of_int (int N - 1) \<le> y" "y < of_int (int N - 1) + 1" using lo by simp_all
      then show ?thesis using floor_unique by blast
    qed
    then show ?thesis using y0 True by (auto simp: N_def r_def)
  qed
qed

text \<open>
  The renderer's instance: \<open>c = 125\<close> pixels and a 16-bit maximum \<open>M\<close> satisfy the
  bound for every width from 24 bits (binary32) up.
\<close>

lemma scale_125_small:
  assumes "24 \<le> n" "M < 2 ^ 16"
  shows "125 * M * (2 * 2 ^ n + 1) < 2 ^ n * (2 ^ n :: nat)"
proof -
  define k :: nat where "k = 2 ^ n"
  have "(2::nat) ^ 24 \<le> 2 ^ n" using assms(1) by (rule power_increasing) simp
  then have k: "16777216 \<le> k" by (simp add: k_def)
  have "125 * M * (2 * k + 1) \<le> 8191875 * (2 * k + 1)"
    using assms(2) by (intro mult_right_mono) simp_all
  also have "\<dots> = 16383750 * k + 8191875" by simp
  also have "\<dots> < 16777216 * k" using k by simp
  also have "\<dots> \<le> k * k" using k by (intro mult_right_mono) simp_all
  finally show ?thesis by (simp add: k_def)
qed

end
