(* ===== verification/Params.thy ===== *)
theory Params
  imports Floats
begin

text \<open>
  ParameterModel: the constant tables of \<^verbatim>\<open>src/Software/main.py\<close> (lines 11--19
  and 44--52) and the arithmetic on their indices. Python's mixed list
  \<open>gain_factors\<close> holds one float (\<open>0.5\<close>) and ints, and \<open>str()\<close> prints the two
  differently (\<open>"0.5"\<close> against \<open>"8"\<close>), so its elements are a small datatype of
  Python numbers. The lemmas show the lengths, the relation between gain codes and
  factors, the wrap-around of index cycling and the integration times.
\<close>

section \<open>Python numbers\<close>

datatype pynum = PyInt int | PyFloat rat

primrec py_num_val :: "pynum \<Rightarrow> rat" where
  "py_num_val (PyInt i) = of_int i"
| "py_num_val (PyFloat q) = q"

primrec py_str_num :: "pynum \<Rightarrow> string" where
  "py_str_num (PyInt i) = py_str_int i"
| "py_str_num (PyFloat q) = py_str_float1 q"

section \<open>Tables and defaults\<close>

definition gain_codes :: "nat list" where
  "gain_codes = [0, 1, 2, 3, 4, 5, 6, 7, 8, 9, 10]"

definition gain_factors :: "pynum list" where
  "gain_factors = [PyFloat (1/2), PyInt 1, PyInt 2, PyInt 4, PyInt 8, PyInt 16, PyInt 32,
     PyInt 64, PyInt 128, PyInt 256, PyInt 512]"

definition gain_index_init :: nat where
  "gain_index_init = 4"

definition atime_settings :: "nat list" where
  "atime_settings = [9, 19, 29, 39, 49, 59]"

definition atime_index_init :: nat where
  "atime_index_init = 2"

definition current_mode_init :: int where
  "current_mode_init = 0"

definition wavelength_index_init :: nat where
  "wavelength_index_init = 2"

definition wavelength_names :: "string list" where
  "wavelength_names =
     [''Violet'', ''Vio-Blue'', ''Blue'', ''Cyan'', ''Green'', ''Yellow'', ''Orange'', ''Red'', ''NIR'']"

definition wavelength_values :: "nat list" where
  "wavelength_values = [415, 445, 480, 515, 555, 590, 630, 680, 940]"

subsection \<open>Band colours\<close>

definition DEEP_VIOLET :: color where "DEEP_VIOLET = 0x8000FF"
definition VIOLET_BLUE :: color where "VIOLET_BLUE = 0x4B0082"
definition BLUE :: color where "BLUE = 0x0000FF"
definition CYAN :: color where "CYAN = 0x00FFFF"
definition GREEN :: color where "GREEN = 0x00FF00"
definition YELLOW :: color where "YELLOW = 0xFFFF00"
definition ORANGE :: color where "ORANGE = 0xFF8000"
definition DEEP_RED :: color where "DEEP_RED = 0xFF0000"
definition GREY :: color where "GREY = 0x808080"

section \<open>The mutable globals\<close>

text \<open>
  The module-level variables that the main loop reassigns (lines 13, 15, 16, 17):
  the device configuration and the UI mode. The mode stays the Python \<open>int\<close> of the
  source (0 normal, 1 gain, 2 integration time, 3 wavelength); the abstract mode
  datatype of the specification is related to it in \<open>Spec2Isabelle\<close>. The indices
  are never negative in the source (they start at 4, 2, 2 and only ever become
  \<open>(i + 1) % n\<close>), so they are \<open>nat\<close>.
\<close>

record globals =
  gain_index :: nat
  atime_index :: nat
  current_mode :: int
  wavelength_index :: nat

section \<open>Index arithmetic\<close>

text \<open>
  Every settings screen advances its index as
  \<^verbatim>\<open>index = (index + 1) % len(table)\<close> (lines 211, 221, 231).
\<close>

definition next_index :: "nat \<Rightarrow> nat \<Rightarrow> nat" where
  "next_index i n = (i + 1) mod n"

text \<open>
  \<^verbatim>\<open>atime_ms = (atime_settings[atime_index] + 1) * 2.78\<close> (lines 90 and 186) in
  the interpreter's float arithmetic \<open>fl\<close>: the literal is the float nearest \<open>2.78\<close>, the int
  is converted to a float (exactly, it is small), and the product is rounded.
\<close>

definition atime_ms :: "nat \<Rightarrow> rat" where
  "atime_ms i = fl (fl (of_nat (atime_settings ! i + 1)) * fl (278 / 100))"

lemmas table_defs = gain_codes_def gain_factors_def atime_settings_def wavelength_names_def
  wavelength_values_def

lemmas init_defs = gain_index_init_def atime_index_init_def current_mode_init_def
  wavelength_index_init_def

lemmas colour_defs = DEEP_VIOLET_def VIOLET_BLUE_def BLUE_def CYAN_def GREEN_def YELLOW_def
  ORANGE_def DEEP_RED_def GREY_def

section \<open>Lemmas\<close>

lemma table_lengths [simp]:
  "length gain_codes = 11" "length gain_factors = 11" "length atime_settings = 6"
  "length wavelength_names = 9" "length wavelength_values = 9"
  by (simp_all add: table_defs)

text \<open>Advancing an index in a table of two or more entries always changes it.\<close>

lemma Suc_mod_neq: "i < n \<Longrightarrow> 1 < n \<Longrightarrow> Suc i mod n \<noteq> i"
proof (cases "Suc i < n")
  case False
  assume "i < n" "1 < n"
  with False have "Suc i = n" by simp
  with \<open>1 < n\<close> show ?thesis by simp
qed simp

lemma next_index_less [simp]: "0 < n \<Longrightarrow> next_index i n < n"
  by (simp add: next_index_def)

lemma funpow_next_index: "i < n \<Longrightarrow> ((\<lambda>j. next_index j n) ^^ k) i = (i + k) mod n"
  by (induction k) (simp_all add: next_index_def mod_Suc_eq)

text \<open>
  C25: the two gain tables agree: the factor shown for every gain index is the
  amplification of the code written to the sensor at the same index, \<open>2 ^ code / 2\<close>
  (code 0 is \<open>0.5\<close>, code 4 is \<open>8\<close>, code 10 is \<open>512\<close>).
\<close>

theorem gain_factor_code:
  "i < length gain_codes \<Longrightarrow> py_num_val (gain_factors ! i) = 2 ^ (gain_codes ! i) / 2"
proof -
  have "\<forall>k \<in> set [0..<11]. py_num_val (gain_factors ! k) = 2 ^ (gain_codes ! k) / 2"
    by (simp add: table_defs numeral_eq_Suc upt_rec)
  then show "i < length gain_codes \<Longrightarrow> ?thesis" by simp
qed

lemma gain_factor_code_witness:
  "4 < length gain_codes \<and> py_num_val (gain_factors ! 4) = 8"
  using gain_factor_code [of 4] by (simp add: table_defs)

text \<open>
  C26: advancing an index with \<open>(i + 1) % n\<close> is a cycle of exact period \<open>n\<close>: after
  \<open>n\<close> presses every setting is back at its start, and no smaller positive number of
  presses returns to it, so every entry of the table is visited once per round.
\<close>

theorem next_index_cycle:
  assumes "i < n"
  shows "((\<lambda>j. next_index j n) ^^ n) i = i
    \<and> (\<forall>k. 0 < k \<and> k < n \<longrightarrow> ((\<lambda>j. next_index j n) ^^ k) i \<noteq> i)"
proof (intro conjI allI impI)
  show "((\<lambda>j. next_index j n) ^^ n) i = i" using assms by (simp add: funpow_next_index)
next
  fix k assume k: "0 < k \<and> k < n"
  have "(i + k) mod n \<noteq> i"
  proof (cases "i + k < n")
    case True
    then show ?thesis using k by simp
  next
    case False
    then have "(i + k) mod n = i + k - n" using assms k by (simp add: mod_if)
    then show ?thesis using k False by linarith
  qed
  then show "((\<lambda>j. next_index j n) ^^ k) i \<noteq> i" using assms by (simp add: funpow_next_index)
qed

lemma next_index_cycle_witness:
  "(4::nat) < 11 \<and> ((\<lambda>j. next_index j 11) ^^ 11) 4 = 4"
  using next_index_cycle [of 4 11] by simp

text \<open>
  C28: the strings the settings screens show for the two tables: \<open>str()\<close> of every gain
  factor, and \<open>str(round(atime_ms, 1))\<close> for every integration setting, with
  \<open>atime_ms = (ATIME + 1) * 2.78\<close> computed in binary32 (e.g. \<open>83.4000015258789\<close>,
  which rounds to \<open>83.4\<close>).
\<close>

theorem settings_text:
  "map py_str_num gain_factors =
     [''0.5'', ''1'', ''2'', ''4'', ''8'', ''16'', ''32'', ''64'', ''128'', ''256'', ''512'']
   \<and> map (\<lambda>i. py_str_float1 (py_round1 (atime_ms i))) [0..<length atime_settings] =
     [''27.8'', ''55.6'', ''83.4'', ''111.2'', ''139.0'', ''166.8'']"
proof
  show "map py_str_num gain_factors =
     [''0.5'', ''1'', ''2'', ''4'', ''8'', ''16'', ''32'', ''64'', ''128'', ''256'', ''512'']"
    by (simp add: table_defs py_simps)
  have u: "[0..<length atime_settings] = [0, 1, 2, 3, 4, 5]" by (simp add: upt_rec)
  show "map (\<lambda>i. py_str_float1 (py_round1 (atime_ms i))) [0..<length atime_settings] =
     [''27.8'', ''55.6'', ''83.4'', ''111.2'', ''139.0'', ''166.8'']"
    unfolding u list.map by code_simp
qed

end
