(* ===== verification/Display.thy ===== *)
theory Display
  imports Prelude
begin

text \<open>
  DisplayPort: the M5Stack \<^verbatim>\<open>display.TFT\<close> object that \<^verbatim>\<open>main.py\<close> draws on
  (spec section 6; the driver is not part of the repository, so it is modelled from the
  specification). A drawing routine of the program is a list of calls
  (\<open>tft_op\<close>); executing them on the display state keeps the background, the current
  font and the items drawn since the last \<open>clear\<close>. Text is drawn in the font that is
  current when \<open>text\<close> is called. The lemmas give the algebra of execution and the
  fact that a call list that clears first and selects a font before its first text
  draws the same screen whatever was on it before.
\<close>

datatype font = FONT_Default | FONT_DejaVu18 | FONT_DejaVu24

datatype tft_op =
    Clear color
  | Font font
  | Text int int string color
  | Rect int int int int color "color option"  \<comment> \<open>x, y, w, h, outline, fill\<close>

datatype item =
    IText int int string color font
  | IRect int int int int color "color option"

record tft_state =
  background :: color
  cur_font :: font
  items :: "item list"

definition TFT_BLACK :: color where "TFT_BLACK = 0x000000"
definition TFT_WHITE :: color where "TFT_WHITE = 0xFFFFFF"
definition TFT_YELLOW :: color where "TFT_YELLOW = 0xFFFF00"
definition TFT_CYAN :: color where "TFT_CYAN = 0x00FFFF"

definition canvas_width :: int where "canvas_width = 135"
definition canvas_height :: int where "canvas_height = 240"

definition tft_new :: tft_state where
  "tft_new = \<lparr>background = TFT_BLACK, cur_font = FONT_Default, items = []\<rparr>"

primrec tft_exec1 :: "tft_state \<Rightarrow> tft_op \<Rightarrow> tft_state" where
  "tft_exec1 t (Clear c) = t\<lparr>background := c, items := []\<rparr>"
| "tft_exec1 t (Font f) = t\<lparr>cur_font := f\<rparr>"
| "tft_exec1 t (Text x y str c) = t\<lparr>items := items t @ [IText x y str c (cur_font t)]\<rparr>"
| "tft_exec1 t (Rect x y w h c fill) = t\<lparr>items := items t @ [IRect x y w h c fill]\<rparr>"

definition tft_exec :: "tft_state \<Rightarrow> tft_op list \<Rightarrow> tft_state" where
  "tft_exec t ops = foldl tft_exec1 t ops"

text \<open>A call list selects a font before it draws its first text.\<close>

fun font_before_text :: "tft_op list \<Rightarrow> bool" where
  "font_before_text [] = True"
| "font_before_text (Text x y str c # ops) = False"
| "font_before_text (Font f # ops) = True"
| "font_before_text (op # ops) = font_before_text ops"

text \<open>A full-screen redraw: clear first, and a font before the first text.\<close>

definition full_redraw :: "tft_op list \<Rightarrow> bool" where
  "full_redraw ops =
     (case ops of Clear c # rest \<Rightarrow> font_before_text rest | _ \<Rightarrow> False)"

lemmas tft_colour_defs = TFT_BLACK_def TFT_WHITE_def TFT_YELLOW_def TFT_CYAN_def

section \<open>Lemmas\<close>

lemma tft_exec_Nil [simp]: "tft_exec t [] = t"
  by (simp add: tft_exec_def)

lemma tft_exec_Cons [simp]: "tft_exec t (op # ops) = tft_exec (tft_exec1 t op) ops"
  by (simp add: tft_exec_def)

lemma tft_exec_append [simp]: "tft_exec t (ops @ ops') = tft_exec (tft_exec t ops) ops'"
  by (simp add: tft_exec_def)

text \<open>Two display states that agree on the visible part agree after the same calls.\<close>

lemma tft_exec_same_items:
  assumes "items t = items t'" "cur_font t = cur_font t'" "background t = background t'"
  shows "items (tft_exec t ops) = items (tft_exec t' ops)
       \<and> background (tft_exec t ops) = background (tft_exec t' ops)
       \<and> cur_font (tft_exec t ops) = cur_font (tft_exec t' ops)"
  using assms
proof (induction ops arbitrary: t t')
  case Nil
  then show ?case by simp
next
  case (Cons op ops)
  have "items (tft_exec1 t op) = items (tft_exec1 t' op)
      \<and> cur_font (tft_exec1 t op) = cur_font (tft_exec1 t' op)
      \<and> background (tft_exec1 t op) = background (tft_exec1 t' op)"
    using Cons.prems by (cases op) simp_all
  then show ?case using Cons.IH [of "tft_exec1 t op" "tft_exec1 t' op"] by simp
qed

lemma tft_exec_font_first:
  "font_before_text ops \<Longrightarrow> items t = items t' \<Longrightarrow> background t = background t' \<Longrightarrow>
   items (tft_exec t ops) = items (tft_exec t' ops)
   \<and> background (tft_exec t ops) = background (tft_exec t' ops)"
proof (induction ops arbitrary: t t')
  case (Cons op ops)
  show ?case
  proof (cases op)
    case (Font f)
    have "items (tft_exec1 t op) = items (tft_exec1 t' op)"
      "background (tft_exec1 t op) = background (tft_exec1 t' op)"
      "cur_font (tft_exec1 t op) = cur_font (tft_exec1 t' op)"
      using Cons.prems Font by simp_all
    then show ?thesis
      using tft_exec_same_items [of "tft_exec1 t op" "tft_exec1 t' op" ops] by simp
  next
    case (Text x y str c)
    show ?thesis using Cons.prems Text by simp
  next
    case (Clear c)
    show ?thesis using Cons.prems Clear Cons.IH [of "tft_exec1 t op" "tft_exec1 t' op"] by simp
  next
    case (Rect x y w h c fill)
    show ?thesis using Cons.prems Rect Cons.IH [of "tft_exec1 t op" "tft_exec1 t' op"] by simp
  qed
qed simp

text \<open>
  A full redraw leaves the same screen on any display: the screen after it is a function
  of the call list alone, whatever the program drew before.
\<close>

lemma full_redraw_screen:
  assumes "full_redraw ops"
  shows "items (tft_exec t ops) = items (tft_exec t' ops)
       \<and> background (tft_exec t ops) = background (tft_exec t' ops)"
proof -
  from assms obtain c rest where ops: "ops = Clear c # rest" and fb: "font_before_text rest"
    by (auto simp: full_redraw_def split: list.splits tft_op.splits)
  show ?thesis
    using tft_exec_font_first [OF fb, of "tft_exec1 t (Clear c)" "tft_exec1 t' (Clear c)"]
    unfolding ops by simp
qed

end
