(* ===== verification/Screens.thy ===== *)
theory Screens
  imports Params Display
begin

text \<open>
  SpectrumRenderer and the three settings screens: \<open>display_gain_settings\<close>,
  \<open>display_integration_settings\<close>, \<open>display_wavelength_selection\<close> and
  \<open>display_spectrum\<close> of \<^verbatim>\<open>main.py\<close> (lines 59--187). Each reads the globals and
  issues calls on \<open>tft\<close>; here each returns the list of those calls, in the order the
  source makes them, and \<open>Controller\<close> executes the list on the display. The body of
  the bar loop of \<open>display_spectrum\<close> is \<open>bar_ops\<close>, its header lines are
  \<open>header_ops\<close>. The lemmas give the geometry of the spectrum screen: bar heights,
  scaling, the position of each bar and its label, and the header text.
\<close>

section \<open>Settings screens\<close>

definition display_gain_settings :: "'a globals_scheme \<Rightarrow> tft_op list" where
  "display_gain_settings g =
     [Clear TFT_BLACK,
      Font FONT_DejaVu18,
      Text 10 20 ''GAIN'' TFT_YELLOW,
      Font FONT_DejaVu24,
      Text 10 60 (''x'' @ py_str_num (gain_factors ! gain_index g)) TFT_WHITE,
      Font FONT_DejaVu18,
      Text 10 120 ''A: Change'' TFT_CYAN,
      Text 10 160 ''B: Time'' TFT_CYAN]"

definition display_integration_settings :: "'a globals_scheme \<Rightarrow> tft_op list" where
  "display_integration_settings g =
     (let atime_ms_val = atime_ms (atime_index g)
      in [Clear TFT_BLACK,
          Font FONT_DejaVu18,
          Text 10 20 ''INT TIME'' TFT_YELLOW,
          Font FONT_DejaVu24,
          Text 10 60 (py_str_float1 (py_round1 atime_ms_val) @ ''ms'') TFT_WHITE,
          Font FONT_DejaVu18,
          Text 10 120 ''A: Change'' TFT_CYAN,
          Text 10 160 ''B: Exit'' TFT_CYAN])"

definition display_wavelength_selection :: "'a globals_scheme \<Rightarrow> tft_op list" where
  "display_wavelength_selection g =
     [Clear TFT_BLACK,
      Font FONT_DejaVu18,
      Text 10 20 ''WAVE LENT'' TFT_YELLOW,
      Font FONT_DejaVu24,
      Text 10 60 (wavelength_names ! wavelength_index g) TFT_WHITE,
      Text 10 95 (py_str_nat (wavelength_values ! wavelength_index g) @ '' nm'') TFT_WHITE,
      Font FONT_DejaVu18,
      Text 10 140 ''A: Change'' TFT_CYAN,
      Text 10 180 ''B: Gain'' TFT_CYAN]"

section \<open>The spectrum screen\<close>

definition top_margin :: int where
  "top_margin = 95"

definition bar_width :: int where
  "bar_width = 10"

definition spacing :: int where
  "spacing = 4"

definition spectrum_colors :: "color list" where
  "spectrum_colors = [DEEP_VIOLET, VIOLET_BLUE, BLUE, CYAN, GREEN, YELLOW, ORANGE, DEEP_RED, GREY]"

text \<open>
  \<^verbatim>\<open>scale = (240 - top_margin - 20) / max_val if max_val > 0 else 1\<close>: true division of
  two ints, the quotient rounded to a float of \<open>n\<close> significand bits (the screen uses the
  interpreter's format \<open>float_sig\<close>).
\<close>

definition spectrum_scale :: "nat \<Rightarrow> nat list \<Rightarrow> rat" where
  "spectrum_scale n bars =
     (let max_val = list_max bars
      in if max_val > 0 then fl_prec n (of_int (240 - top_margin - 20) / of_nat max_val) else 1)"

definition start_x :: int where
  "start_x = (135 - (9 * bar_width + 8 * spacing)) div 2"

definition bar_x :: "nat \<Rightarrow> int" where
  "bar_x i = start_x + int i * (bar_width + spacing)"

text \<open>\<^verbatim>\<open>height = int(bar * scale)\<close>: the reading converted to a float, the rounded product.\<close>

definition bar_height :: "nat \<Rightarrow> rat \<Rightarrow> nat \<Rightarrow> int" where
  "bar_height n scale bar = py_trunc (fl_prec n (fl_prec n (of_nat bar) * scale))"

text \<open>One iteration of \<^verbatim>\<open>for i, bar in enumerate(bars)\<close> (lines 143--164).\<close>

definition bar_ops :: "nat \<Rightarrow> rat \<Rightarrow> nat \<times> nat \<Rightarrow> tft_op list" where
  "bar_ops sel scale ib =
     (let (i, bar) = ib;
          height = bar_height float_sig scale bar;
          color = spectrum_colors ! i
      in (if i = sel
          then [Rect (bar_x i - 2) (240 - height - 2) (bar_width + 4) (height + 4) TFT_WHITE None]
          else [])
         @ [Rect (bar_x i) (240 - height) bar_width height color (Some color),
            Font FONT_Default,
            (if i < 8 then Text (bar_x i - 2) 245 (py_str_nat (wavelength_values ! i)) TFT_WHITE
             else Text (bar_x i - 2) 245 ''NIR'' TFT_WHITE)])"

text \<open>The four information lines (lines 167--187).\<close>

definition header_ops :: "'a globals_scheme \<Rightarrow> nat \<Rightarrow> tft_op list" where
  "header_ops g selected_bar =
     (let selected_color = spectrum_colors ! wavelength_index g;
          selected_name = wavelength_names ! wavelength_index g;
          name_width = int (length selected_name) * 14;
          center_x = (135 - name_width) div 2;
          count_width = int (length (py_str_nat selected_bar)) * 14;
          count_x = (135 - count_width) div 2;
          atime_ms_val = atime_ms (atime_index g)
      in [Font FONT_DejaVu24,
          Text center_x 5 selected_name selected_color,
          Text count_x 30 (py_str_nat selected_bar) TFT_WHITE,
          Font FONT_DejaVu18,
          Text 5 55 (''Gain: x'' @ py_str_num (gain_factors ! gain_index g)) TFT_WHITE,
          Text 5 75 (''Time: '' @ py_str_float1 (py_round1 atime_ms_val)) TFT_WHITE])"

definition display_spectrum ::
  "'a globals_scheme \<Rightarrow> nat \<Rightarrow> nat \<Rightarrow> nat \<Rightarrow> nat \<Rightarrow> nat \<Rightarrow> nat \<Rightarrow> nat \<Rightarrow> nat \<Rightarrow> nat \<Rightarrow>
   tft_op list" where
  "display_spectrum g f1 f2 f3 f4 f5 f6 f7 f8 nir =
     (let bars = [f1, f2, f3, f4, f5, f6, f7, f8, nir];
          selected_bar = bars ! wavelength_index g;
          scale = spectrum_scale float_sig bars
      in [Clear TFT_BLACK]
         @ concat (map (bar_ops (wavelength_index g) scale) (enumerate 0 bars))
         @ header_ops g selected_bar)"

lemmas layout_defs = top_margin_def bar_width_def spacing_def start_x_def bar_x_def

text \<open>
  Where a rectangle of the spectrum screen belongs: inside the canvas horizontally, below
  the header, of non-negative height, standing on the bottom edge when filled; a frame
  (no fill) reaches two pixels further down, as the highlight frame of line 149 does.
\<close>

fun rect_placed :: "tft_op \<Rightarrow> bool" where
  "rect_placed (Rect x y w h c (Some f)) =
     (0 \<le> x \<and> x + w \<le> canvas_width \<and> top_margin < y \<and> 0 \<le> h \<and> y + h = canvas_height)"
| "rect_placed (Rect x y w h c None) =
     (0 \<le> x \<and> x + w \<le> canvas_width \<and> top_margin < y \<and> 0 \<le> h \<and> y + h = canvas_height + 2)"
| "rect_placed _ = True"

section \<open>Lemmas\<close>

text \<open>The screens read the globals and nothing else.\<close>

lemma screens_cong:
  assumes "gain_index g = gain_index g'" "atime_index g = atime_index g'"
    "wavelength_index g = wavelength_index g'"
  shows "display_gain_settings g = display_gain_settings g'"
    "display_integration_settings g = display_integration_settings g'"
    "display_wavelength_selection g = display_wavelength_selection g'"
    "display_spectrum g f1 f2 f3 f4 f5 f6 f7 f8 nir = display_spectrum g' f1 f2 f3 f4 f5 f6 f7 f8 nir"
  using assms by (simp_all add: display_gain_settings_def display_integration_settings_def
      display_wavelength_selection_def display_spectrum_def header_ops_def)

subsection \<open>The rectangles of a call list\<close>

text \<open>The filled rectangles (the bars) and the outline rectangles (the highlight).\<close>

fun filled_bars :: "tft_op list \<Rightarrow> (int \<times> int \<times> int \<times> int) list" where
  "filled_bars [] = []"
| "filled_bars (Rect x y w h c (Some f) # ops) = (x, y, w, h) # filled_bars ops"
| "filled_bars (op # ops) = filled_bars ops"

fun outlines :: "tft_op list \<Rightarrow> (int \<times> int \<times> int \<times> int) list" where
  "outlines [] = []"
| "outlines (Rect x y w h c None # ops) = (x, y, w, h) # outlines ops"
| "outlines (op # ops) = outlines ops"

lemma filled_bars_append [simp]: "filled_bars (xs @ ys) = filled_bars xs @ filled_bars ys"
  by (induction xs rule: filled_bars.induct) simp_all

lemma outlines_append [simp]: "outlines (xs @ ys) = outlines xs @ outlines ys"
  by (induction xs rule: outlines.induct) simp_all

lemma filled_bars_concat [simp]: "filled_bars (concat xss) = concat (map filled_bars xss)"
  by (induction xss) simp_all

lemma outlines_concat [simp]: "outlines (concat xss) = concat (map outlines xss)"
  by (induction xss) simp_all

lemma filled_bars_bar_ops [simp]:
  "filled_bars (bar_ops sel scale (i, b)) =
     [(bar_x i, 240 - bar_height float_sig scale b, bar_width, bar_height float_sig scale b)]"
  by (simp add: bar_ops_def Let_def)

lemma outlines_bar_ops [simp]:
  "outlines (bar_ops sel scale (i, b)) =
     (if i = sel then [(bar_x i - 2, 240 - bar_height float_sig scale b - 2, bar_width + 4,
        bar_height float_sig scale b + 4)] else [])"
  by (simp add: bar_ops_def Let_def)

lemma header_ops_rects [simp]: "filled_bars (header_ops g n) = []" "outlines (header_ops g n) = []"
  by (simp_all add: header_ops_def Let_def)

lemma spectrum_bars_list:
  "filled_bars (display_spectrum g f1 f2 f3 f4 f5 f6 f7 f8 nir) =
     map (\<lambda>(i, b). (bar_x i, 240 - bar_height float_sig (spectrum_scale float_sig [f1, f2, f3, f4, f5, f6, f7, f8, nir]) b,
                    bar_width, bar_height float_sig (spectrum_scale float_sig [f1, f2, f3, f4, f5, f6, f7, f8, nir]) b))
       (enumerate 0 [f1, f2, f3, f4, f5, f6, f7, f8, nir])"
  by (simp add: display_spectrum_def Let_def case_prod_beta)

subsection \<open>Heights\<close>

text \<open>
  With readings of the sensor's 16-bit range, the float height is the integer quotient
  \<open>b * 125 div max\<close>, or one less when the exact value is an integer.
\<close>

lemma spectrum_scale_pos:
  "0 < list_max bars \<Longrightarrow> spectrum_scale n bars = fl_prec n (of_nat 125 / of_nat (list_max bars))"
  by (simp add: spectrum_scale_def top_margin_def Let_def)

lemma bar_height_float:
  assumes n: "24 \<le> n" and m: "0 < list_max bars" "list_max bars < 2 ^ 16"
    and b: "b \<le> list_max bars"
  shows "bar_height n (spectrum_scale n bars) b = int (b * 125 div list_max bars)
    \<or> b * 125 mod list_max bars = 0
      \<and> bar_height n (spectrum_scale n bars) b = int (b * 125 div list_max bars) - 1"
proof -
  have "(2::nat) ^ 16 \<le> 2 ^ n" using n by (intro power_increasing) simp_all
  then have bn: "b < 2 ^ n" using m(2) b by linarith
  from fl_prec_scaled_floor [OF m(1) b _ bn scale_125_small [OF n m(2)]] n show ?thesis
    by (simp add: bar_height_def spectrum_scale_pos [OF m(1)] py_trunc_def)
qed

lemma bar_height_le_125:
  assumes "24 \<le> n" "0 < list_max bars" "list_max bars < 2 ^ 16" "b \<le> list_max bars"
  shows "bar_height n (spectrum_scale n bars) b \<le> 125"
proof -
  have "b * 125 div list_max bars \<le> list_max bars * 125 div list_max bars"
    using assms(4) by (intro div_le_mono) simp
  also have "\<dots> = 125" using assms(2) by simp
  finally show ?thesis using bar_height_float [OF assms] by linarith
qed

lemma bar_height_zero [simp]: "bar_height n scale 0 = 0"
  by (simp add: bar_height_def fl_prec_def py_trunc_def)

lemma bar_height_nonneg: "0 \<le> scale \<Longrightarrow> 0 \<le> bar_height n scale b"
  by (simp add: bar_height_def py_trunc_def fl_prec_nonneg)

lemma spectrum_scale_nonneg: "0 \<le> spectrum_scale n bars"
  by (simp add: spectrum_scale_def top_margin_def Let_def fl_prec_nonneg)

lemma float_sig_ge_24: "24 \<le> float_sig"
  by (simp add: float_sig_def)

lemma bar_x_eval [simp]: "bar_x k = 6 + 14 * int k"
  by (simp add: layout_defs)

text \<open>
  The bar heights of the specification's sample readings in binary32: the largest
  reading, 90, gets 124 pixels, since \<open>90 * (125 / 90)\<close> rounds to \<open>124.99999\<dots>\<close>
  (binary64 gives 125).
\<close>

lemma sample_bar_heights:
  "bar_height float_sig (spectrum_scale float_sig [10, 20, 30, 40, 50, 60, 70, 80, 90]) 10 = 13"
  "bar_height float_sig (spectrum_scale float_sig [10, 20, 30, 40, 50, 60, 70, 80, 90]) 20 = 27"
  "bar_height float_sig (spectrum_scale float_sig [10, 20, 30, 40, 50, 60, 70, 80, 90]) 30 = 41"
  "bar_height float_sig (spectrum_scale float_sig [10, 20, 30, 40, 50, 60, 70, 80, 90]) 40 = 55"
  "bar_height float_sig (spectrum_scale float_sig [10, 20, 30, 40, 50, 60, 70, 80, 90]) 50 = 69"
  "bar_height float_sig (spectrum_scale float_sig [10, 20, 30, 40, 50, 60, 70, 80, 90]) 60 = 83"
  "bar_height float_sig (spectrum_scale float_sig [10, 20, 30, 40, 50, 60, 70, 80, 90]) 70 = 97"
  "bar_height float_sig (spectrum_scale float_sig [10, 20, 30, 40, 50, 60, 70, 80, 90]) 80 = 111"
  "bar_height float_sig (spectrum_scale float_sig [10, 20, 30, 40, 50, 60, 70, 80, 90]) 90 = 124"
  by code_simp+

lemma bar_height_list_max_0: "b \<in> set bars \<Longrightarrow> list_max bars = 0 \<Longrightarrow> b = 0"
  using list_max_ge [of b bars] by simp

lemma outlines_bar_ops_gen:
  "outlines (bar_ops sel scale ib) =
     (if fst ib = sel then [(bar_x (fst ib) - 2, 240 - bar_height float_sig scale (snd ib) - 2, bar_width + 4,
        bar_height float_sig scale (snd ib) + 4)] else [])"
  by (cases ib) (simp del: bar_x_eval)

lemma concat_map_enumerate_single:
  "concat (map (\<lambda>ib. if fst ib = w then [F ib] else []) (enumerate n xs)) =
     (if n \<le> w \<and> w < n + length xs then [F (w, xs ! (w - n))] else [])"
proof (induction xs arbitrary: n)
  case Nil
  then show ?case by simp
next
  case (Cons x xs)
  show ?case
  proof (cases "n = w")
    case True
    then show ?thesis using Cons.IH [of "Suc n"] by simp
  next
    case False
    then have "w - n = Suc (w - Suc n)" if "n \<le> w" using that by simp
    with False show ?thesis using Cons.IH [of "Suc n"] by auto
  qed
qed

lemma set_header_ops_display:
  "set (header_ops g ([f1, f2, f3, f4, f5, f6, f7, f8, nir] ! wavelength_index g))
     \<subseteq> set (display_spectrum g f1 f2 f3 f4 f5 f6 f7 f8 nir)"
  unfolding display_spectrum_def Let_def set_append by blast

text \<open>Every rectangle of the spectrum screen is placed, for readings of the 16-bit range.\<close>

lemma bar_height_range:
  assumes "b \<in> set bars" "list_max bars < 2 ^ 16"
  shows "0 \<le> bar_height float_sig (spectrum_scale float_sig bars) b \<and> bar_height float_sig (spectrum_scale float_sig bars) b \<le> 125"
proof (cases "list_max bars = 0")
  case True
  then show ?thesis using bar_height_list_max_0 [OF assms(1)] by simp
next
  case False
  then show ?thesis
    using assms list_max_ge [OF assms(1)]
    by (simp add: bar_height_le_125 [OF float_sig_ge_24] bar_height_nonneg spectrum_scale_nonneg)
qed

lemma bar_ops_placed:
  "i < 9 \<Longrightarrow> 0 \<le> bar_height float_sig scale b \<Longrightarrow> bar_height float_sig scale b \<le> 125 \<Longrightarrow>
   list_all rect_placed (bar_ops sel scale (i, b))"
  by (simp add: bar_ops_def Let_def canvas_width_def canvas_height_def top_margin_def bar_width_def)

lemma header_ops_placed [simp]: "list_all rect_placed (header_ops g n)"
  by (simp add: header_ops_def Let_def)

lemma set_enumerate_bound: "(i, b) \<in> set (enumerate 0 xs) \<Longrightarrow> i < length xs \<and> b \<in> set xs"
  by (auto simp: in_set_enumerate_eq)

lemma display_spectrum_placed:
  assumes "list_max [f1, f2, f3, f4, f5, f6, f7, f8, nir] < 2 ^ 16"
  shows "list_all rect_placed (display_spectrum g f1 f2 f3 f4 f5 f6 f7 f8 nir)"
proof -
  let ?bars = "[f1, f2, f3, f4, f5, f6, f7, f8, nir]"
  have "list_all rect_placed (bar_ops (wavelength_index g) (spectrum_scale float_sig ?bars) ib)"
    if "ib \<in> set (enumerate 0 ?bars)" for ib
  proof -
    obtain i b where ib: "ib = (i, b)" by (cases ib)
    with that have "i < 9" "b \<in> set ?bars" using set_enumerate_bound by fastforce+
    then show ?thesis using ib bar_ops_placed bar_height_range [OF _ assms] by blast
  qed
  then have "list_all rect_placed
      (concat (map (bar_ops (wavelength_index g) (spectrum_scale float_sig ?bars)) (enumerate 0 ?bars)))"
    by (simp only: list_all_iff set_concat set_map) blast
  then show ?thesis unfolding display_spectrum_def Let_def list_all_append by simp
qed

text \<open>Each screen clears the display exactly once: one full redraw per screen.\<close>

lemma bar_ops_no_clear: "Clear c \<notin> set (bar_ops sel scale ib)"
  by (cases ib) (simp add: bar_ops_def Let_def)

lemma header_ops_no_clear: "Clear c \<notin> set (header_ops g n)"
  by (simp add: header_ops_def Let_def)

lemma screens_one_clear [simp]:
  "count_list (display_gain_settings g) (Clear TFT_BLACK) = 1"
  "count_list (display_integration_settings g) (Clear TFT_BLACK) = 1"
  "count_list (display_wavelength_selection g) (Clear TFT_BLACK) = 1"
  "count_list (display_spectrum g f1 f2 f3 f4 f5 f6 f7 f8 nir) (Clear TFT_BLACK) = 1"
  by (simp_all add: display_gain_settings_def display_integration_settings_def
      display_wavelength_selection_def display_spectrum_def Let_def count_list_0_iff
      bar_ops_no_clear header_ops_no_clear del: enumerate_simps)

section \<open>Properties of the spectrum screen\<close>

text \<open>
  C15: the spectrum screen draws exactly nine filled bars, left to right in channel
  order: bar \<open>k\<close> is 10 pixels wide at \<open>x = 6 + 14 k\<close>, stands on the bottom edge
  (\<open>y + h = 240\<close>), and is as tall as the scaled reading of channel \<open>k\<close>.
\<close>

theorem spectrum_bars:
  assumes "k < 9"
  shows "length (filled_bars (display_spectrum g f1 f2 f3 f4 f5 f6 f7 f8 nir)) = 9
    \<and> filled_bars (display_spectrum g f1 f2 f3 f4 f5 f6 f7 f8 nir) ! k =
       (6 + 14 * int k,
        240 - bar_height float_sig (spectrum_scale float_sig [f1, f2, f3, f4, f5, f6, f7, f8, nir])
                ([f1, f2, f3, f4, f5, f6, f7, f8, nir] ! k),
        10,
        bar_height float_sig (spectrum_scale float_sig [f1, f2, f3, f4, f5, f6, f7, f8, nir])
          ([f1, f2, f3, f4, f5, f6, f7, f8, nir] ! k))"
  using assms by (simp add: spectrum_bars_list nth_enumerate_eq bar_width_def del: enumerate_simps)

lemma spectrum_bars_witness:
  "(3::nat) < 9 \<and> filled_bars (display_spectrum \<lparr>gain_index = 4, atime_index = 2,
      current_mode = 0, wavelength_index = 2\<rparr> 10 20 30 40 50 60 70 80 90) ! 3 = (48, 185, 10, 55)"
  using spectrum_bars [of 3 "\<lparr>gain_index = 4, atime_index = 2, current_mode = 0,
      wavelength_index = 2\<rparr>" 10 20 30 40 50 60 70 80 90]
  by (simp add: sample_bar_heights)

text \<open>
  C16: with all nine readings zero the renderer does not divide by zero: the scale
  falls back to 1 and the nine bars are drawn with height 0.
\<close>

theorem spectrum_zero_readings:
  "spectrum_scale n [0, 0, 0, 0, 0, 0, 0, 0, 0] = 1
   \<and> filled_bars (display_spectrum g 0 0 0 0 0 0 0 0 0) = map (\<lambda>k. (6 + 14 * int k, 240, 10, 0)) [0..<9]"
  by (simp add: spectrum_bars_list spectrum_scale_def bar_width_def upt_rec)

text \<open>
  C17: in every float format with at least 24 significand bits (binary32, the ESP32's
  MicroPython float, and binary64), for readings in the sensor's 16-bit range with some
  reading positive, the height of a bar is the integer quotient
  \<open>reading * 125 div max\<close> whenever that quotient is not exact, and that quotient or one
  less when it is; it lies between 0 and 125 pixels.
\<close>

theorem spectrum_heights:
  assumes "24 \<le> n" "0 < list_max bars" "list_max bars < 2 ^ 16" "b \<le> list_max bars"
  shows "(if b * 125 mod list_max bars = 0
          then bar_height n (spectrum_scale n bars) b
                 \<in> {int (b * 125 div list_max bars) - 1, int (b * 125 div list_max bars)}
          else bar_height n (spectrum_scale n bars) b = int (b * 125 div list_max bars))
    \<and> 0 \<le> bar_height n (spectrum_scale n bars) b \<and> bar_height n (spectrum_scale n bars) b \<le> 125"
  using bar_height_float [OF assms] bar_height_le_125 [OF assms]
    bar_height_nonneg [OF spectrum_scale_nonneg]
  by auto

lemma spectrum_heights_witness:
  "24 \<le> float_sig \<and> 0 < list_max [10, 20, 30, 40, 50, 60, 70, 80, 90]
   \<and> list_max [10, 20, 30, 40, 50, 60, 70, 80, 90] < 2 ^ 16
   \<and> (30::nat) \<le> list_max [10, 20, 30, 40, 50, 60, 70, 80, 90]
   \<and> bar_height float_sig (spectrum_scale float_sig [10, 20, 30, 40, 50, 60, 70, 80, 90]) 30 = 41"
  using spectrum_heights [of float_sig "[10, 20, 30, 40, 50, 60, 70, 80, 90]" 30]
  by (simp add: float_sig_def sample_bar_heights [unfolded float_sig_def])

text \<open>
  C18: in every float format with at least 24 significand bits, for readings in the
  16-bit range with some reading positive, the channel with the largest reading gets a
  bar of 124 or 125 pixels: the full plotting area, or one pixel less when the float
  product \<open>max * (125 / max)\<close> falls just below 125. In binary32 this happens for the
  specification's own sample, whose largest reading 90 gets 124 pixels.
\<close>

theorem spectrum_tallest_bar:
  "24 \<le> n \<Longrightarrow> 0 < list_max bars \<Longrightarrow> list_max bars < 2 ^ 16 \<Longrightarrow>
   bar_height n (spectrum_scale n bars) (list_max bars) \<in> {124, 125}"
  using bar_height_float [of n bars "list_max bars"] by auto

lemma spectrum_tallest_bar_witness:
  "24 \<le> float_sig \<and> 0 < list_max [10, 20, 30, 40, 50, 60, 70, 80, 90]
   \<and> list_max [10, 20, 30, 40, 50, 60, 70, 80, 90] < 2 ^ 16
   \<and> bar_height float_sig (spectrum_scale float_sig [10, 20, 30, 40, 50, 60, 70, 80, 90]) 90 = 124"
proof -
  have h: "24 \<le> float_sig \<and> 0 < list_max [10, 20, 30, 40, 50, 60, 70, 80, 90]
    \<and> list_max [10, 20, 30, 40, 50, 60, 70, 80, 90] < 2 ^ 16" by (simp add: float_sig_def)
  from h spectrum_tallest_bar [of float_sig "[10, 20, 30, 40, 50, 60, 70, 80, 90]"]
  have "bar_height float_sig (spectrum_scale float_sig [10, 20, 30, 40, 50, 60, 70, 80, 90]) 90
      \<in> {124, 125}" by simp
  with h show ?thesis by (simp add: sample_bar_heights)
qed

text \<open>
  C19: exactly one outline rectangle is drawn, the white frame 2 pixels around the bar of
  the selected channel, and it is drawn immediately before that bar, so the bar covers
  its inside.
\<close>

theorem spectrum_highlight:
  assumes "wavelength_index g < 9"
  shows "let bars = [f1, f2, f3, f4, f5, f6, f7, f8, nir]; w = wavelength_index g;
             h = bar_height float_sig (spectrum_scale float_sig bars) (bars ! w); c = spectrum_colors ! w
         in outlines (display_spectrum g f1 f2 f3 f4 f5 f6 f7 f8 nir)
              = [(bar_x w - 2, 240 - h - 2, bar_width + 4, h + 4)]
          \<and> (\<exists>pre post. display_spectrum g f1 f2 f3 f4 f5 f6 f7 f8 nir =
               pre @ [Rect (bar_x w - 2) (240 - h - 2) (bar_width + 4) (h + 4) TFT_WHITE None,
                      Rect (bar_x w) (240 - h) bar_width h c (Some c)] @ post)"
proof -
  let ?bars = "[f1, f2, f3, f4, f5, f6, f7, f8, nir]"
  let ?w = "wavelength_index g"
  let ?sc = "spectrum_scale float_sig ?bars"
  let ?h = "bar_height float_sig ?sc (?bars ! ?w)"
  let ?c = "spectrum_colors ! ?w"
  let ?E = "enumerate 0 ?bars"
  let ?bo = "bar_ops ?w ?sc"
  have w: "?w < length ?E" using assms by simp
  have o: "outlines (display_spectrum g f1 f2 f3 f4 f5 f6 f7 f8 nir)
      = [(bar_x ?w - 2, 240 - ?h - 2, bar_width + 4, ?h + 4)]"
    using assms
    by (simp add: display_spectrum_def Let_def outlines_bar_ops_gen concat_map_enumerate_single
        comp_def del: bar_x_eval enumerate_simps)
  have E: "?E = take ?w ?E @ [(?w, ?bars ! ?w)] @ drop (Suc ?w) ?E"
    using id_take_nth_drop [OF w] w by (simp add: nth_enumerate_eq del: enumerate_simps)
  have "?bo (?w, ?bars ! ?w) =
      [Rect (bar_x ?w - 2) (240 - ?h - 2) (bar_width + 4) (?h + 4) TFT_WHITE None,
       Rect (bar_x ?w) (240 - ?h) bar_width ?h ?c (Some ?c)] @ tl (tl (?bo (?w, ?bars ! ?w)))"
    by (simp add: bar_ops_def Let_def del: bar_x_eval)
  then have "display_spectrum g f1 f2 f3 f4 f5 f6 f7 f8 nir =
      ([Clear TFT_BLACK] @ concat (map ?bo (take ?w ?E)))
      @ [Rect (bar_x ?w - 2) (240 - ?h - 2) (bar_width + 4) (?h + 4) TFT_WHITE None,
         Rect (bar_x ?w) (240 - ?h) bar_width ?h ?c (Some ?c)]
      @ (tl (tl (?bo (?w, ?bars ! ?w))) @ concat (map ?bo (drop (Suc ?w) ?E))
         @ header_ops g (?bars ! ?w))"
    unfolding display_spectrum_def Let_def
    by (subst E) (simp del: bar_x_eval enumerate_simps)
  with o show ?thesis unfolding Let_def by blast
qed

lemma spectrum_highlight_witness:
  "wavelength_index \<lparr>gain_index = 4, atime_index = 2, current_mode = 0, wavelength_index = 2\<rparr> < 9
   \<and> outlines (display_spectrum \<lparr>gain_index = 4, atime_index = 2, current_mode = 0,
        wavelength_index = 2\<rparr> 10 20 30 40 50 60 70 80 90) = [(32, 197, 14, 45)]"
  using spectrum_highlight [of "\<lparr>gain_index = 4, atime_index = 2, current_mode = 0,
      wavelength_index = 2\<rparr>" 10 20 30 40 50 60 70 80 90]
  by (simp add: Let_def sample_bar_heights bar_width_def)

text \<open>
  C20: the second header line shows the selected channel's reading, and reading that
  text back as a decimal number gives the reading itself.
\<close>

theorem spectrum_count_roundtrip:
  "\<exists>x str. Text x 30 str TFT_WHITE \<in> set (display_spectrum g f1 f2 f3 f4 f5 f6 f7 f8 nir)
     \<and> py_parse_nat str = Some ([f1, f2, f3, f4, f5, f6, f7, f8, nir] ! wavelength_index g)"
proof -
  let ?b = "[f1, f2, f3, f4, f5, f6, f7, f8, nir] ! wavelength_index g"
  let ?x = "(135 - int (length (py_str_nat ?b)) * 14) div 2"
  have "Text ?x 30 (py_str_nat ?b) TFT_WHITE \<in> set (header_ops g ?b)"
    by (simp add: header_ops_def Let_def)
  then have "Text ?x 30 (py_str_nat ?b) TFT_WHITE \<in> set (display_spectrum g f1 f2 f3 f4 f5 f6 f7 f8 nir)"
    by (rule subsetD [OF set_header_ops_display])
  then show ?thesis by (intro exI [of _ ?x] exI [of _ "py_str_nat ?b"] conjI) simp_all
qed

text \<open>
  C21: the nine bars with their highlight frames fit side by side on the 135-pixel
  canvas without overlapping: the frame of bar \<open>i\<close> (from \<open>bar_x i - 2\<close>, \<open>bar_width + 4\<close>
  pixels wide) starts at or right of the left edge, the frame of any later bar \<open>j\<close>
  ends at or left of the right edge, and the pixels of frame \<open>i\<close> all lie left of
  frame \<open>j\<close> (neighbouring frames touch).
\<close>

theorem bars_layout:
  assumes "i < j" "j < 9"
  shows "0 \<le> bar_x i - 2 \<and> bar_x j - 2 + (bar_width + 4) \<le> canvas_width
    \<and> bar_x i - 2 + (bar_width + 4) \<le> bar_x j - 2"
  using assms by (simp add: bar_width_def canvas_width_def)

lemma bars_layout_witness:
  "(0::nat) < 8 \<and> (8::nat) < 9 \<and> 0 \<le> bar_x 0 - 2
   \<and> bar_x 8 - 2 + (bar_width + 4) \<le> canvas_width"
  using bars_layout [of 0 8] by simp

text \<open>
  C22: for readings in the 16-bit range, no bar, highlight frame included, reaches into
  the 95-pixel header area: the top edge of every frame lies below \<open>top_margin\<close>.
\<close>

theorem bars_below_header:
  assumes "b \<in> set bars" "list_max bars < 2 ^ 16"
  shows "top_margin < 240 - bar_height float_sig (spectrum_scale float_sig bars) b - 2"
  using bar_height_range [OF assms] by (simp add: top_margin_def)

lemma bars_below_header_witness:
  "(90::nat) \<in> set [10, 20, 30, 40, 50, 60, 70, 80, 90]
   \<and> list_max [10, 20, 30, 40, 50, 60, 70, 80, 90] < 2 ^ 16
   \<and> top_margin < 240 - bar_height float_sig (spectrum_scale float_sig [10, 20, 30, 40, 50, 60, 70, 80, 90]) 90 - 2"
  using bars_below_header [of 90 "[10, 20, 30, 40, 50, 60, 70, 80, 90]"] by simp

text \<open>
  C23: the wavelength labels under the bars are drawn at \<open>y = 245\<close>, below the bottom
  edge of the 240-pixel canvas: every text the bar loop draws starts off screen. The
  specification puts these labels below the bars, on the display.
\<close>

theorem labels_below_canvas:
  "Text x y str c \<in> set (bar_ops sel scale ib) \<Longrightarrow> canvas_height < y"
  by (cases ib) (auto simp: bar_ops_def Let_def canvas_height_def split: if_splits)

lemma labels_below_canvas_witness:
  "Text 4 245 ''415'' TFT_WHITE \<in> set (bar_ops 2 1 (0, 10)) \<and> canvas_height < 245"
proof -
  have t: "Text 4 245 ''415'' TFT_WHITE \<in> set (bar_ops 2 1 (0, 10))"
    by (simp add: bar_ops_def Let_def table_defs py_simps)
  from t labels_below_canvas [OF t] show ?thesis by simp
qed

text \<open>
  C24: every screen routine redraws the whole screen: it clears first and selects a
  font before it writes text, so what is on the display afterwards depends only on the
  routine's inputs, not on what was shown before.
\<close>

theorem screens_full_redraw:
  "items (tft_exec t (display_gain_settings g)) = items (tft_exec tft_new (display_gain_settings g))
   \<and> items (tft_exec t (display_integration_settings g))
       = items (tft_exec tft_new (display_integration_settings g))
   \<and> items (tft_exec t (display_wavelength_selection g))
       = items (tft_exec tft_new (display_wavelength_selection g))
   \<and> items (tft_exec t (display_spectrum g f1 f2 f3 f4 f5 f6 f7 f8 nir))
       = items (tft_exec tft_new (display_spectrum g f1 f2 f3 f4 f5 f6 f7 f8 nir))"
proof -
  have "full_redraw (display_gain_settings g)" "full_redraw (display_integration_settings g)"
    "full_redraw (display_wavelength_selection g)"
    "full_redraw (display_spectrum g f1 f2 f3 f4 f5 f6 f7 f8 nir)"
    by (simp_all add: full_redraw_def display_gain_settings_def display_integration_settings_def
        display_wavelength_selection_def display_spectrum_def bar_ops_def Let_def)
  then show ?thesis using full_redraw_screen by blast
qed

text \<open>
  C31: the spectrum screen's information lines agree with the settings screens for the
  same globals: the gain line shows the factor text of the gain screen, the time line
  the value of the integration-time screen (without its \<open>ms\<close> unit), and the first
  line the channel name of the wavelength screen.
\<close>

theorem screens_agree:
  "\<exists>v t n. Text 10 60 (''x'' @ v) TFT_WHITE \<in> set (display_gain_settings g)
     \<and> Text 5 55 (''Gain: x'' @ v) TFT_WHITE \<in> set (display_spectrum g f1 f2 f3 f4 f5 f6 f7 f8 nir)
     \<and> Text 10 60 (t @ ''ms'') TFT_WHITE \<in> set (display_integration_settings g)
     \<and> Text 5 75 (''Time: '' @ t) TFT_WHITE \<in> set (display_spectrum g f1 f2 f3 f4 f5 f6 f7 f8 nir)
     \<and> Text 10 60 n TFT_WHITE \<in> set (display_wavelength_selection g)
     \<and> (\<exists>x c. Text x 5 n c \<in> set (display_spectrum g f1 f2 f3 f4 f5 f6 f7 f8 nir))"
proof -
  let ?b = "[f1, f2, f3, f4, f5, f6, f7, f8, nir] ! wavelength_index g"
  let ?v = "py_str_num (gain_factors ! gain_index g)"
  let ?t = "py_str_float1 (py_round1 (atime_ms (atime_index g)))"
  let ?n = "wavelength_names ! wavelength_index g"
  let ?x = "(135 - int (length ?n) * 14) div 2"
  have h: "Text 5 55 (''Gain: x'' @ ?v) TFT_WHITE \<in> set (header_ops g ?b)"
    "Text 5 75 (''Time: '' @ ?t) TFT_WHITE \<in> set (header_ops g ?b)"
    "Text ?x 5 ?n (spectrum_colors ! wavelength_index g) \<in> set (header_ops g ?b)"
    by (simp_all add: header_ops_def Let_def)
  have "Text 10 60 (''x'' @ ?v) TFT_WHITE \<in> set (display_gain_settings g)"
    "Text 10 60 (?t @ ''ms'') TFT_WHITE \<in> set (display_integration_settings g)"
    "Text 10 60 ?n TFT_WHITE \<in> set (display_wavelength_selection g)"
    by (simp_all add: display_gain_settings_def display_integration_settings_def
        display_wavelength_selection_def Let_def)
  with subsetD [OF set_header_ops_display h(1)] subsetD [OF set_header_ops_display h(2)]
    subsetD [OF set_header_ops_display h(3)]
  show ?thesis by blast
qed


end
