(* ===== verification/Sensor.thy ===== *)
theory Sensor
  imports Prelude
begin

text \<open>
  SensorPort and InputPort: the AS7341 driver object (\<^verbatim>\<open>from as7341 import *\<close>) and
  the two M5Stack buttons (\<^verbatim>\<open>from m5stack import btnA, btnB\<close>). Neither driver is in
  the repository, so both are modelled from section 6 of the specification. The sensor
  is the register file the program writes; every driver call the program makes is one
  constructor of \<open>sensor_op\<close>, and \<open>sensor_apply\<close> is its effect on the registers.
  What a measurement returns depends on the light and on the bus: it is the value of
  a function \<open>light\<close> of the channel set selected by the last \<open>start_measure\<close>,
  \<open>None\<close> when the I2C read fails. A button latches a press until
  \<open>wasPressed()\<close> reads and clears it.
\<close>

section \<open>The AS7341 sensor\<close>

datatype meas_mode = AS7341_MODE_SPM | AS7341_MODE_SYNS | AS7341_MODE_SYND

record as7341 =
  connected :: bool
  powered :: bool
  measure_mode :: meas_mode
  atime :: nat
  astep :: nat
  again :: nat
  led_current :: nat
  led_on :: bool
  smux :: string  \<comment> \<open>channel set of the last \<open>start_measure\<close>\<close>

datatype sensor_op =
    SetMeasureMode meas_mode
  | SetAtime nat
  | SetAstep nat
  | SetAgain nat
  | SetLedCurrent nat
  | EnableLed bool
  | StartMeasure string
  | GetSpectralData
  | IsConnected
  | Disable

primrec sensor_apply :: "sensor_op \<Rightarrow> as7341 \<Rightarrow> as7341" where
  "sensor_apply (SetMeasureMode m) s = s\<lparr>measure_mode := m\<rparr>"
| "sensor_apply (SetAtime n) s = s\<lparr>atime := n\<rparr>"
| "sensor_apply (SetAstep n) s = s\<lparr>astep := n\<rparr>"
| "sensor_apply (SetAgain n) s = s\<lparr>again := n\<rparr>"
| "sensor_apply (SetLedCurrent n) s = s\<lparr>led_current := n\<rparr>"
| "sensor_apply (EnableLed b) s = s\<lparr>led_on := b\<rparr>"
| "sensor_apply (StartMeasure cfg) s = s\<lparr>smux := cfg\<rparr>"
| "sensor_apply GetSpectralData s = s"
| "sensor_apply IsConnected s = s"
| "sensor_apply Disable s = s\<lparr>powered := False\<rparr>"

text \<open>
  \<open>AS7341(i2c)\<close>: a freshly constructed driver, powered, LED off. The integration and
  gain registers hold the chip's reset values (ATIME 0, ASTEP 999, AGAIN 9, LED drive
  12 mA); the program overwrites all of them but the LED current before its first
  measurement, and no theorem depends on them.
\<close>

definition as7341_new :: "bool \<Rightarrow> as7341" where
  "as7341_new present =
     \<lparr>connected = present, powered = True, measure_mode = AS7341_MODE_SPM, atime = 0,
      astep = 999, again = 9, led_current = 12, led_on = False, smux = []\<rparr>"

type_synonym reading6 = "nat \<times> nat \<times> nat \<times> nat \<times> nat \<times> nat"

type_synonym light = "string \<Rightarrow> reading6 option"

text \<open>\<open>get_spectral_data()\<close>: the six channels of the last measurement, or a bus error.\<close>

definition spectral_data :: "light \<Rightarrow> as7341 \<Rightarrow> reading6 option" where
  "spectral_data env s = env (smux s)"

text \<open>
  The argument ranges of the driver calls: section 6 of the specification gives the
  LED current as 0..100 mA and the gain as a code 0..10; ATIME and ASTEP are the
  AS7341's 8-bit and 16-bit registers.
\<close>

fun sensor_arg_ok :: "sensor_op \<Rightarrow> bool" where
  "sensor_arg_ok (SetAtime n) = (n < 2 ^ 8)"
| "sensor_arg_ok (SetAstep n) = (n < 2 ^ 16)"
| "sensor_arg_ok (SetAgain n) = (n \<le> 10)"
| "sensor_arg_ok (SetLedCurrent n) = (n \<le> 100)"
| "sensor_arg_ok _ = True"

section \<open>The buttons\<close>

record button =
  latched :: bool

definition press :: "button \<Rightarrow> button" where
  "press b = b\<lparr>latched := True\<rparr>"

definition was_pressed :: "button \<Rightarrow> bool \<times> button" where
  "was_pressed b = (latched b, b\<lparr>latched := False\<rparr>)"

definition button_new :: button where
  "button_new = \<lparr>latched = False\<rparr>"

section \<open>Lemmas\<close>

text \<open>Replaying a list of driver calls.\<close>

definition sensor_replay :: "as7341 \<Rightarrow> sensor_op list \<Rightarrow> as7341" where
  "sensor_replay s ops = foldl (\<lambda>s op. sensor_apply op s) s ops"

lemma sensor_replay_Nil [simp]: "sensor_replay s [] = s"
  by (simp add: sensor_replay_def)

lemma sensor_replay_snoc [simp]:
  "sensor_replay s (ops @ [op]) = sensor_apply op (sensor_replay s ops)"
  by (simp add: sensor_replay_def)

lemma sensor_replay_append:
  "sensor_replay s (ops @ ops') = sensor_replay (sensor_replay s ops) ops'"
  by (simp add: sensor_replay_def)

text \<open>Frame: the LED is only switched by \<open>EnableLed\<close>.\<close>

lemma led_on_sensor_apply:
  "led_on (sensor_apply op s) = (case op of EnableLed b \<Rightarrow> b | _ \<Rightarrow> led_on s)"
  by (cases op) simp_all

lemma led_on_sensor_replay:
  "EnableLed b \<notin> set ops \<Longrightarrow> EnableLed (\<not> b) \<notin> set ops \<Longrightarrow>
   led_on (sensor_replay s ops) = led_on s"
proof (induction ops rule: rev_induct)
  case (snoc op ops)
  then show ?case by (cases b; cases op) (simp_all add: led_on_sensor_apply)
qed simp

end
