(* ===== verification/Controller.thy ===== *)
theory Controller
  imports Screens Sensor
begin

text \<open>
  ModeStateMachine and AcquisitionSequencer: the module-level code of \<^verbatim>\<open>main.py\<close>
  that runs the instrument. The state of the running program is the record
  \<open>machine\<close>: the mutable globals (\<open>globals\<close>, from \<open>Params\<close>), the sensor's
  registers, the display, the two button latches, and the trace of every external call
  the program has made (sensor driver, display, \<open>print\<close>, \<open>sleep_ms\<close>) in the order it
  made them. Each Python function is one definition: \<open>set_led_current\<close>,
  \<open>enable_led\<close>, \<open>update_settings\<close>, the measurement branch \<open>take_measurement\<close>,
  one handler per mode, the loop body \<open>tick\<close>, the start-up code \<open>startup\<close> and the
  interrupt path \<open>shutdown\<close>. The environment is a list of events: button presses,
  loop iterations (each with what the sensor will read), and the keyboard interrupt.
\<close>

section \<open>State\<close>

datatype call =
    SensorCall sensor_op
  | TftCall tft_op
  | PrintCall string
  | SleepMs nat

record machine = globals +
  sensor :: as7341
  tft :: tft_state
  btnA :: button
  btnB :: button
  trace :: "call list"

section \<open>Calls on the collaborators\<close>

definition sensor_call :: "sensor_op \<Rightarrow> machine \<Rightarrow> machine" where
  "sensor_call op s = s\<lparr>sensor := sensor_apply op (sensor s), trace := trace s @ [SensorCall op]\<rparr>"

definition draw :: "tft_op list \<Rightarrow> machine \<Rightarrow> machine" where
  "draw ops s = s\<lparr>tft := tft_exec (tft s) ops, trace := trace s @ map TftCall ops\<rparr>"

definition py_print :: "string \<Rightarrow> machine \<Rightarrow> machine" where
  "py_print msg s = s\<lparr>trace := trace s @ [PrintCall msg]\<rparr>"

definition sleep_ms :: "nat \<Rightarrow> machine \<Rightarrow> machine" where
  "sleep_ms n s = s\<lparr>trace := trace s @ [SleepMs n]\<rparr>"

definition get_spectral_data :: "light \<Rightarrow> machine \<Rightarrow> reading6 option \<times> machine" where
  "get_spectral_data env s = (spectral_data env (sensor s), sensor_call GetSpectralData s)"

definition btnA_wasPressed :: "machine \<Rightarrow> bool \<times> machine" where
  "btnA_wasPressed s = (let (p, b) = was_pressed (btnA s) in (p, s\<lparr>btnA := b\<rparr>))"

definition btnB_wasPressed :: "machine \<Rightarrow> bool \<times> machine" where
  "btnB_wasPressed s = (let (p, b) = was_pressed (btnB s) in (p, s\<lparr>btnB := b\<rparr>))"

section \<open>The program's functions\<close>

definition set_led_current :: "nat \<Rightarrow> machine \<Rightarrow> machine" where
  "set_led_current current_mA s = sensor_call (SetLedCurrent current_mA) s"

definition enable_led :: "bool \<Rightarrow> machine \<Rightarrow> machine" where
  "enable_led enable s = sensor_call (EnableLed enable) s"

definition update_settings :: "machine \<Rightarrow> machine" where
  "update_settings s =
     (let s = sensor_call (SetAtime (atime_settings ! atime_index s)) s
      in sensor_call (SetAgain (gain_codes ! gain_index s)) s)"

text \<open>
  The measurement branch of normal mode (lines 193--203): LED on, two acquisitions,
  draw, LED off. A failing read raises out of the loop at once; nothing after it runs.
\<close>

definition take_measurement :: "light \<Rightarrow> machine \<Rightarrow> machine outcome" where
  "take_measurement env s =
     (let s = py_print ''Taking measurement'' s;
          s = set_led_current 25 s;
          s = enable_led True s;
          s = sensor_call (StartMeasure ''F1F4CN'') s;
          (d1, s) = get_spectral_data env s
      in case d1 of
           None \<Rightarrow> Raised OSError s
         | Some (f1, f2, f3, f4, clr, nir) \<Rightarrow>
             (let s = sensor_call (StartMeasure ''F5F8CN'') s;
                  (d2, s) = get_spectral_data env s
              in case d2 of
                   None \<Rightarrow> Raised OSError s
                 | Some (f5, f6, f7, f8, clr, nir) \<Rightarrow>
                     (let s = draw (display_spectrum s f1 f2 f3 f4 f5 f6 f7 f8 nir) s
                      in Running (enable_led False s))))"

definition tick_normal :: "light \<Rightarrow> machine \<Rightarrow> machine outcome" where
  "tick_normal env s =
     (let (a, s) = btnA_wasPressed s
      in if a then take_measurement env s
         else let (b, s) = btnB_wasPressed s
              in if b then
                   (let s = s\<lparr>current_mode := 3\<rparr>
                    in Running (draw (display_wavelength_selection s) s))
                 else Running s)"

definition tick_gain :: "machine \<Rightarrow> machine" where
  "tick_gain s =
     (let (a, s) = btnA_wasPressed s
      in if a then
           (let s = s\<lparr>gain_index := next_index (gain_index s) (length gain_codes)\<rparr>;
                s = update_settings s
            in draw (display_gain_settings s) s)
         else let (b, s) = btnB_wasPressed s
              in if b then
                   (let s = s\<lparr>current_mode := 2\<rparr>
                    in draw (display_integration_settings s) s)
                 else s)"

definition tick_integration :: "machine \<Rightarrow> machine" where
  "tick_integration s =
     (let (a, s) = btnA_wasPressed s
      in if a then
           (let s = s\<lparr>atime_index := next_index (atime_index s) (length atime_settings)\<rparr>;
                s = update_settings s
            in draw (display_integration_settings s) s)
         else let (b, s) = btnB_wasPressed s
              in if b then
                   (let s = s\<lparr>current_mode := 0\<rparr>
                    in draw [Clear TFT_BLACK] s)
                 else s)"

definition tick_wavelength :: "machine \<Rightarrow> machine" where
  "tick_wavelength s =
     (let (a, s) = btnA_wasPressed s
      in if a then
           (let s = s\<lparr>wavelength_index :=
                        next_index (wavelength_index s) (length wavelength_names)\<rparr>
            in draw (display_wavelength_selection s) s)
         else let (b, s) = btnB_wasPressed s
              in if b then
                   (let s = s\<lparr>current_mode := 1\<rparr>
                    in draw (display_gain_settings s) s)
                 else s)"

text \<open>
  One iteration of \<^verbatim>\<open>while True\<close> (lines 191--238): the \<open>if/elif\<close> chain on
  \<open>current_mode\<close> (a mode outside 0..3 does nothing), then \<open>sleep_ms(100)\<close>, which is
  not reached when the iteration raises.
\<close>

definition tick :: "light \<Rightarrow> machine \<Rightarrow> machine outcome" where
  "tick env s =
     (let r = (if current_mode s = 0 then tick_normal env s
               else if current_mode s = 1 then Running (tick_gain s)
               else if current_mode s = 2 then Running (tick_integration s)
               else if current_mode s = 3 then Running (tick_wavelength s)
               else Running s)
      in case r of Running s \<Rightarrow> Running (sleep_ms 100 s) | _ \<Rightarrow> r)"

section \<open>Start-up, interrupt, and the run\<close>

text \<open>
  Lines 11--21: the globals take their defaults and the driver object is constructed;
  the display object (line 41) is given here as well, before it is used.
\<close>

definition initial_machine :: "bool \<Rightarrow> machine" where
  "initial_machine present =
     \<lparr>gain_index = gain_index_init, atime_index = atime_index_init,
      current_mode = current_mode_init, wavelength_index = wavelength_index_init,
      sensor = as7341_new present, tft = tft_new,
      btnA = button_new, btnB = button_new, trace = []\<rparr>"

text \<open>\<open>sensor.isconnected()\<close> (line 22): a driver call that reports whether the chip answers.\<close>

definition sensor_isconnected :: "machine \<Rightarrow> bool \<times> machine" where
  "sensor_isconnected s = (connected (sensor s), sensor_call IsConnected s)"

text \<open>
  Lines 22--29: an absent sensor prints the message and calls \<open>sys.exit(1)\<close>; the
  script never imports \<open>sys\<close> (lines 1--5 bind \<open>display\<close>, \<open>I2C\<close>, \<open>Pin\<close>,
  \<open>sleep_ms\<close>, the public names of the driver module, which is not in the repository
  and is taken not to export a module \<open>sys\<close>, and the two buttons), so evaluating
  \<open>sys\<close> raises \<open>NameError\<close>, which ends the program before the loop. Otherwise the
  sensor is configured.
\<close>

definition startup :: "bool \<Rightarrow> machine outcome" where
  "startup present =
     (let s = initial_machine present;
          (c, s) = sensor_isconnected s
      in if \<not> c then
           Raised NameError (py_print ''Failed to contact AS7341, terminating'' s)
         else
           (let s = sensor_call (SetMeasureMode AS7341_MODE_SPM) s;
                s = sensor_call (SetAtime 29) s;
                s = sensor_call (SetAstep 599) s;
                s = sensor_call (SetAgain 4) s
            in Running s))"

text \<open>The \<open>except KeyboardInterrupt\<close> handler and the final \<open>sensor.disable()\<close>.\<close>

definition shutdown :: "machine \<Rightarrow> machine" where
  "shutdown s = sensor_call Disable (py_print ''Interrupted from keyboard'' s)"

datatype event = PressA | PressB | Tick light | Interrupt

primrec step_event :: "event \<Rightarrow> machine \<Rightarrow> machine outcome" where
  "step_event PressA s = Running (s\<lparr>btnA := press (btnA s)\<rparr>)"
| "step_event PressB s = Running (s\<lparr>btnB := press (btnB s)\<rparr>)"
| "step_event (Tick env) s = tick env s"
| "step_event Interrupt s = Exited 0 (shutdown s)"

fun run :: "machine \<Rightarrow> event list \<Rightarrow> machine outcome" where
  "run s [] = Running s"
| "run s (e # es) = (case step_event e s of Running s' \<Rightarrow> run s' es | r \<Rightarrow> r)"

definition main :: "bool \<Rightarrow> event list \<Rightarrow> machine outcome" where
  "main present es = (case startup present of Running s \<Rightarrow> run s es | r \<Rightarrow> r)"

inductive reachable :: "machine \<Rightarrow> bool" where
  start: "startup True = Running s \<Longrightarrow> reachable s"
| step: "reachable s \<Longrightarrow> step_event e s = Running s' \<Longrightarrow> reachable s'"

inductive_cases reachable_startE: "reachable s"

section \<open>Frame lemmas of the plumbing\<close>

lemma sensor_call_fields [simp]:
  "gain_index (sensor_call op s) = gain_index s" "atime_index (sensor_call op s) = atime_index s"
  "current_mode (sensor_call op s) = current_mode s"
  "wavelength_index (sensor_call op s) = wavelength_index s"
  "sensor (sensor_call op s) = sensor_apply op (sensor s)"
  "tft (sensor_call op s) = tft s" "btnA (sensor_call op s) = btnA s"
  "btnB (sensor_call op s) = btnB s" "trace (sensor_call op s) = trace s @ [SensorCall op]"
  by (simp_all add: sensor_call_def)

lemma draw_fields [simp]:
  "gain_index (draw ops s) = gain_index s" "atime_index (draw ops s) = atime_index s"
  "current_mode (draw ops s) = current_mode s"
  "wavelength_index (draw ops s) = wavelength_index s"
  "sensor (draw ops s) = sensor s" "tft (draw ops s) = tft_exec (tft s) ops"
  "btnA (draw ops s) = btnA s" "btnB (draw ops s) = btnB s"
  "trace (draw ops s) = trace s @ map TftCall ops"
  by (simp_all add: draw_def)

lemma py_print_fields [simp]:
  "gain_index (py_print m s) = gain_index s" "atime_index (py_print m s) = atime_index s"
  "current_mode (py_print m s) = current_mode s"
  "wavelength_index (py_print m s) = wavelength_index s"
  "sensor (py_print m s) = sensor s" "tft (py_print m s) = tft s"
  "btnA (py_print m s) = btnA s" "btnB (py_print m s) = btnB s"
  "trace (py_print m s) = trace s @ [PrintCall m]"
  by (simp_all add: py_print_def)

lemma sleep_ms_fields [simp]:
  "gain_index (sleep_ms n s) = gain_index s" "atime_index (sleep_ms n s) = atime_index s"
  "current_mode (sleep_ms n s) = current_mode s"
  "wavelength_index (sleep_ms n s) = wavelength_index s"
  "sensor (sleep_ms n s) = sensor s" "tft (sleep_ms n s) = tft s"
  "btnA (sleep_ms n s) = btnA s" "btnB (sleep_ms n s) = btnB s"
  "trace (sleep_ms n s) = trace s @ [SleepMs n]"
  by (simp_all add: sleep_ms_def)

text \<open>The globals of a machine; the screens depend on nothing else.\<close>

definition globals_of :: "machine \<Rightarrow> globals" where
  "globals_of s = \<lparr>gain_index = gain_index s, atime_index = atime_index s,
     current_mode = current_mode s, wavelength_index = wavelength_index s\<rparr>"

lemma screens_globals_of:
  "display_gain_settings s = display_gain_settings (globals_of s)"
  "display_integration_settings s = display_integration_settings (globals_of s)"
  "display_wavelength_selection s = display_wavelength_selection (globals_of s)"
  "display_spectrum s f1 f2 f3 f4 f5 f6 f7 f8 nir
     = display_spectrum (globals_of s) f1 f2 f3 f4 f5 f6 f7 f8 nir"
  by (rule screens_cong; simp add: globals_of_def)+

lemmas call_defs = set_led_current_def enable_led_def update_settings_def
  get_spectral_data_def spectral_data_def btnA_wasPressed_def btnB_wasPressed_def was_pressed_def

lemma run_append:
  "run s (xs @ ys) = (case run s xs of Running s' \<Rightarrow> run s' ys | r \<Rightarrow> r)"
  by (induction s xs rule: run.induct) (auto split: outcome.splits)

section \<open>Sample inputs\<close>

text \<open>
  Concrete inputs for the witnesses: the machine right after a successful start-up, a
  light that reads the specification's scenario \<open>[10, 20, ..., 90]\<close> (the first
  acquisition gives F1..F4, the second F5..F8 and NIR), and a bus that fails on the
  second acquisition.
\<close>

definition booted :: machine where
  "booted = outcome_state (startup True)"

definition sample_light :: light where
  "sample_light c =
     (if c = ''F1F4CN'' then Some (10, 20, 30, 40, 0, 0) else Some (50, 60, 70, 80, 0, 90))"

definition failing_light :: light where
  "failing_light c = (if c = ''F1F4CN'' then Some (10, 20, 30, 40, 0, 0) else None)"

lemmas boot_simps = booted_def startup_def initial_machine_def as7341_new_def Let_def init_defs
  button_new_def tft_new_def sensor_call_def sensor_isconnected_def

section \<open>The invariant\<close>

text \<open>
  Between loop iterations the program keeps every index inside its table, the mode in
  0..3, the sensor's ATIME and AGAIN registers equal to the table entries the indices
  select, the start-up configuration of ASTEP and measurement mode, and the LED off.
\<close>

definition machine_inv :: "machine \<Rightarrow> bool" where
  "machine_inv s \<longleftrightarrow>
     gain_index s < length gain_codes \<and> atime_index s < length atime_settings
   \<and> wavelength_index s < length wavelength_names
   \<and> 0 \<le> current_mode s \<and> current_mode s \<le> 3
   \<and> atime (sensor s) = atime_settings ! atime_index s
   \<and> again (sensor s) = gain_codes ! gain_index s
   \<and> astep (sensor s) = 599 \<and> measure_mode (sensor s) = AS7341_MODE_SPM
   \<and> \<not> led_on (sensor s) \<and> powered (sensor s) \<and> connected (sensor s)"

lemmas handler_defs = tick_gain_def tick_integration_def tick_wavelength_def tick_normal_def
  call_defs Let_def

lemma tick_gain_inv: "machine_inv s \<Longrightarrow> machine_inv (tick_gain s)"
  by (simp add: handler_defs machine_inv_def)

lemma tick_integration_inv: "machine_inv s \<Longrightarrow> machine_inv (tick_integration s)"
  by (simp add: handler_defs machine_inv_def)

lemma tick_wavelength_inv: "machine_inv s \<Longrightarrow> machine_inv (tick_wavelength s)"
  by (simp add: handler_defs machine_inv_def)

lemma take_measurement_inv:
  "machine_inv s \<Longrightarrow> take_measurement env s = Running s' \<Longrightarrow> machine_inv s'"
  by (auto simp: take_measurement_def call_defs machine_inv_def Let_def
      split: option.splits prod.splits)

lemma tick_normal_inv:
  assumes inv: "machine_inv s" and r: "tick_normal env s = Running s'"
  shows "machine_inv s'"
proof (cases "latched (btnA s)")
  case True
  let ?s = "s\<lparr>btnA := (btnA s)\<lparr>latched := False\<rparr>\<rparr>"
  from r True have "take_measurement env ?s = Running s'"
    by (simp add: tick_normal_def call_defs Let_def)
  moreover from inv have "machine_inv ?s" by (simp add: machine_inv_def)
  ultimately show ?thesis by (rule take_measurement_inv [rotated])
next
  case False
  with inv r show ?thesis
    by (auto simp: tick_normal_def call_defs Let_def machine_inv_def split: if_splits)
qed

lemma machine_inv_sleep [simp]: "machine_inv (sleep_ms n s) = machine_inv s"
  by (simp add: machine_inv_def)

lemma tick_inv: "machine_inv s \<Longrightarrow> tick env s = Running s' \<Longrightarrow> machine_inv s'"
  by (auto simp: tick_def Let_def tick_gain_inv tick_integration_inv tick_wavelength_inv
      dest: tick_normal_inv split: if_splits outcome.splits)

lemma step_event_inv:
  assumes inv: "machine_inv s" and r: "step_event e s = Running s'"
  shows "machine_inv s'"
proof (cases e)
  case (Tick env)
  with inv r show ?thesis by (auto intro: tick_inv)
qed (use inv r in \<open>auto simp: machine_inv_def press_def\<close>)

lemma startup_inv: "startup True = Running s \<Longrightarrow> machine_inv s"
  by (auto simp: startup_def initial_machine_def machine_inv_def init_defs table_defs
      as7341_new_def sensor_isconnected_def sensor_call_def Let_def)

lemma reachable_inv: "reachable s \<Longrightarrow> machine_inv s"
proof (induction rule: reachable.induct)
  case (start s)
  then show ?case by (rule startup_inv)
next
  case (step s e s')
  then show ?case by (blast intro: step_event_inv)
qed

text \<open>
  C1: in every state the running program reaches, every index is inside its table, the
  mode is one of 0..3, the sensor's ATIME and AGAIN registers hold the table entries the
  indices select, ASTEP is 599, the measurement mode is SPM, and the LED is off.
\<close>

theorem reachable_machine_inv: "reachable s \<Longrightarrow> machine_inv s"
  by (rule reachable_inv)

lemma reachable_machine_inv_witness: "reachable booted \<and> machine_inv booted"
proof -
  have r: "reachable booted"
    by (rule reachable.start) (simp add: boot_simps)
  then show ?thesis using reachable_machine_inv [OF r] by simp
qed

section \<open>Behaviour of each branch of the loop body\<close>

lemma take_measurement_Some:
  assumes d1: "env ''F1F4CN'' = Some (f1, f2, f3, f4, c1, n1)"
    and d2: "env ''F5F8CN'' = Some (f5, f6, f7, f8, c2, nir)"
  shows "take_measurement env s = Running (s\<lparr>
      sensor := (sensor s)\<lparr>led_current := 25, led_on := False, smux := ''F5F8CN''\<rparr>,
      tft := tft_exec (tft s) (display_spectrum s f1 f2 f3 f4 f5 f6 f7 f8 nir),
      trace := trace s @
        [PrintCall ''Taking measurement'', SensorCall (SetLedCurrent 25),
         SensorCall (EnableLed True), SensorCall (StartMeasure ''F1F4CN''),
         SensorCall GetSpectralData, SensorCall (StartMeasure ''F5F8CN''),
         SensorCall GetSpectralData]
        @ map TftCall (display_spectrum s f1 f2 f3 f4 f5 f6 f7 f8 nir)
        @ [SensorCall (EnableLed False)]\<rparr>)"
  using d1 d2
  by (simp add: take_measurement_def call_defs Let_def py_print_def sensor_call_def draw_def
      screens_globals_of globals_of_def)

lemma take_measurement_raises:
  assumes "env ''F1F4CN'' = None \<or> env ''F5F8CN'' = None"
  obtains s' calls where "take_measurement env s = Raised OSError s'"
    "sensor s' = (sensor s)\<lparr>led_current := 25, led_on := True, smux := smux (sensor s')\<rparr>"
    "trace s' = trace s @ [PrintCall ''Taking measurement'', SensorCall (SetLedCurrent 25),
         SensorCall (EnableLed True)] @ calls"
    "set calls \<subseteq> {SensorCall (StartMeasure ''F1F4CN''), SensorCall (StartMeasure ''F5F8CN''),
         SensorCall GetSpectralData}"
  using assms
  by (cases "env ''F1F4CN''") (auto simp: take_measurement_def call_defs Let_def py_print_def
      sensor_call_def split: option.splits prod.splits)

lemma take_measurement_keeps:
  "take_measurement env s = Running s' \<Longrightarrow>
   gain_index s' = gain_index s \<and> atime_index s' = atime_index s
   \<and> current_mode s' = current_mode s \<and> wavelength_index s' = wavelength_index s
   \<and> btnA s' = btnA s \<and> btnB s' = btnB s"
  by (auto simp: take_measurement_def call_defs Let_def split: option.splits prod.splits)

text \<open>The loop body in each mode, by the latch that is read first.\<close>

lemma tick_mode0_A:
  "current_mode s = 0 \<Longrightarrow> latched (btnA s) \<Longrightarrow>
   tick env s = (case take_measurement env (s\<lparr>btnA := (btnA s)\<lparr>latched := False\<rparr>\<rparr>) of
      Running s' \<Rightarrow> Running (sleep_ms 100 s') | r \<Rightarrow> r)"
  by (simp add: tick_def tick_normal_def call_defs Let_def split: outcome.splits)

lemma tick_mode1_A:
  "current_mode s = 1 \<Longrightarrow> latched (btnA s) \<Longrightarrow>
   tick env s = Running (sleep_ms 100 (tick_gain s))"
  by (simp add: tick_def)

lemma tick_mode2_A:
  "current_mode s = 2 \<Longrightarrow> tick env s = Running (sleep_ms 100 (tick_integration s))"
  by (simp add: tick_def)

lemma tick_mode3_A:
  "current_mode s = 3 \<Longrightarrow> tick env s = Running (sleep_ms 100 (tick_wavelength s))"
  by (simp add: tick_def)

lemma count_list_map_TftCall [simp]: "count_list (map TftCall ops) (SensorCall op) = 0"
  by (induction ops) simp_all

text \<open>
  C3: in normal mode with button A pressed, one loop iteration prints, sets the LED
  current to 25 mA, switches the LED on, runs the \<open>F1F4CN\<close> and then the \<open>F5F8CN\<close>
  acquisition, draws the spectrum of the nine channels it read (the NIR value of the
  second acquisition), switches the LED off and sleeps; the mode and the parameters stay,
  the A press is consumed and the LED ends off.
\<close>

theorem tick_normal_measure:
  assumes "current_mode s = 0" "latched (btnA s)"
    and "env ''F1F4CN'' = Some (f1, f2, f3, f4, c1, n1)"
    and "env ''F5F8CN'' = Some (f5, f6, f7, f8, c2, nir)"
  shows "\<exists>s'. tick env s = Running s' \<and> current_mode s' = 0
    \<and> gain_index s' = gain_index s \<and> atime_index s' = atime_index s
    \<and> wavelength_index s' = wavelength_index s
    \<and> \<not> latched (btnA s') \<and> \<not> led_on (sensor s')
    \<and> trace s' = trace s @
        [PrintCall ''Taking measurement'', SensorCall (SetLedCurrent 25),
         SensorCall (EnableLed True), SensorCall (StartMeasure ''F1F4CN''),
         SensorCall GetSpectralData, SensorCall (StartMeasure ''F5F8CN''),
         SensorCall GetSpectralData]
        @ map TftCall (display_spectrum s f1 f2 f3 f4 f5 f6 f7 f8 nir)
        @ [SensorCall (EnableLed False), SleepMs 100]"
  using assms
  by (simp add: tick_mode0_A take_measurement_Some [where s = "s\<lparr>btnA := _\<rparr>"]
      screens_globals_of globals_of_def)

lemma tick_normal_measure_witness:
  "current_mode (booted\<lparr>btnA := \<lparr>latched = True\<rparr>\<rparr>) = 0
   \<and> latched (btnA (booted\<lparr>btnA := \<lparr>latched = True\<rparr>\<rparr>))
   \<and> sample_light ''F1F4CN'' = Some (10, 20, 30, 40, 0, 0)
   \<and> sample_light ''F5F8CN'' = Some (50, 60, 70, 80, 0, 90)
   \<and> (\<exists>s'. tick sample_light (booted\<lparr>btnA := \<lparr>latched = True\<rparr>\<rparr>) = Running s'
         \<and> \<not> led_on (sensor s') \<and> current_mode s' = 0)"
  using tick_normal_measure [of "booted\<lparr>btnA := \<lparr>latched = True\<rparr>\<rparr>" sample_light]
  by (auto simp: boot_simps sample_light_def)

text \<open>
  C4: a measurement switches the LED on exactly once and off exactly once, the on before
  both acquisitions and the off after both.
\<close>

theorem tick_measure_led_once:
  assumes "current_mode s = 0" "latched (btnA s)"
    and "env ''F1F4CN'' = Some (f1, f2, f3, f4, c1, n1)"
    and "env ''F5F8CN'' = Some (f5, f6, f7, f8, c2, nir)"
  shows "\<exists>s' pre mid post. tick env s = Running s'
    \<and> trace s' = trace s @ pre @ [SensorCall (EnableLed True)] @ mid
                 @ [SensorCall (EnableLed False)] @ post
    \<and> SensorCall (StartMeasure ''F1F4CN'') \<in> set mid
    \<and> SensorCall (StartMeasure ''F5F8CN'') \<in> set mid
    \<and> count_list (pre @ mid @ post) (SensorCall (EnableLed True)) = 0
    \<and> count_list (pre @ mid @ post) (SensorCall (EnableLed False)) = 0"
proof -
  let ?sp = "display_spectrum s f1 f2 f3 f4 f5 f6 f7 f8 nir"
  let ?mid = "[SensorCall (StartMeasure ''F1F4CN''), SensorCall GetSpectralData,
    SensorCall (StartMeasure ''F5F8CN''), SensorCall GetSpectralData] @ map TftCall ?sp"
  from assms obtain s' where "tick env s = Running s'" and
    tr: "trace s' = trace s @ [PrintCall ''Taking measurement'', SensorCall (SetLedCurrent 25)]
      @ [SensorCall (EnableLed True)] @ ?mid @ [SensorCall (EnableLed False)] @ [SleepMs 100]"
    by (simp add: tick_mode0_A take_measurement_Some [where s = "s\<lparr>btnA := _\<rparr>"]
        screens_globals_of globals_of_def)
  then show ?thesis by (intro exI [of _ s'] exI conjI) (assumption | simp)+
qed

lemma tick_measure_led_once_witness:
  "current_mode (booted\<lparr>btnA := \<lparr>latched = True\<rparr>\<rparr>) = 0
   \<and> latched (btnA (booted\<lparr>btnA := \<lparr>latched = True\<rparr>\<rparr>))
   \<and> sample_light ''F1F4CN'' = Some (10, 20, 30, 40, 0, 0)
   \<and> sample_light ''F5F8CN'' = Some (50, 60, 70, 80, 0, 90)
   \<and> (\<exists>s' pre mid post. tick sample_light (booted\<lparr>btnA := \<lparr>latched = True\<rparr>\<rparr>) = Running s'
         \<and> trace s' = trace booted @ pre @ [SensorCall (EnableLed True)] @ mid
                 @ [SensorCall (EnableLed False)] @ post)"
proof -
  have h: "current_mode (booted\<lparr>btnA := \<lparr>latched = True\<rparr>\<rparr>) = 0"
    "latched (btnA (booted\<lparr>btnA := \<lparr>latched = True\<rparr>\<rparr>))"
    "sample_light ''F1F4CN'' = Some (10, 20, 30, 40, 0, 0)"
    "sample_light ''F5F8CN'' = Some (50, 60, 70, 80, 0, 90)"
    by (simp_all add: boot_simps sample_light_def)
  from tick_measure_led_once [OF h] h show ?thesis by auto
qed

text \<open>
  C5: if either acquisition fails to read, the exception leaves the loop with the LED
  still on and the sensor still powered: the program ends there whatever comes next,
  and it never switches the LED off. The specification asks for the LED to be released
  on every exit of an acquisition.
\<close>

theorem measure_failure_led_on:
  assumes "current_mode s = 0" "latched (btnA s)"
    and "env ''F1F4CN'' = None \<or> env ''F5F8CN'' = None"
    and "powered (sensor s)"
  shows "\<exists>s'. (\<forall>es. run s (Tick env # es) = Raised OSError s') \<and> led_on (sensor s')
    \<and> powered (sensor s') \<and> SensorCall (EnableLed False) \<notin> set (drop (length (trace s)) (trace s'))
    \<and> SensorCall Disable \<notin> set (drop (length (trace s)) (trace s'))"
proof -
  let ?s = "s\<lparr>btnA := (btnA s)\<lparr>latched := False\<rparr>\<rparr>"
  obtain s' calls where r: "take_measurement env ?s = Raised OSError s'"
    and sn: "sensor s' = (sensor ?s)\<lparr>led_current := 25, led_on := True, smux := smux (sensor s')\<rparr>"
    and tr: "trace s' = trace ?s @ [PrintCall ''Taking measurement'', SensorCall (SetLedCurrent 25),
         SensorCall (EnableLed True)] @ calls"
    and cs: "set calls \<subseteq> {SensorCall (StartMeasure ''F1F4CN''),
         SensorCall (StartMeasure ''F5F8CN''), SensorCall GetSpectralData}"
    using assms(3) by (rule take_measurement_raises)
  have "tick env s = Raised OSError s'"
    using assms(1,2) r by (simp add: tick_mode0_A)
  moreover have "SensorCall (EnableLed False) \<notin> set calls" "SensorCall Disable \<notin> set calls"
    using cs by auto
  moreover have "led_on (sensor s')" "powered (sensor s') = powered (sensor s)"
    using arg_cong [OF sn, of led_on] arg_cong [OF sn, of powered] by simp_all
  ultimately show ?thesis using tr assms(4) by simp
qed

lemma measure_failure_led_on_witness:
  "current_mode (booted\<lparr>btnA := \<lparr>latched = True\<rparr>\<rparr>) = 0
   \<and> latched (btnA (booted\<lparr>btnA := \<lparr>latched = True\<rparr>\<rparr>))
   \<and> failing_light ''F5F8CN'' = None
   \<and> powered (sensor (booted\<lparr>btnA := \<lparr>latched = True\<rparr>\<rparr>))
   \<and> (\<exists>s'. run (booted\<lparr>btnA := \<lparr>latched = True\<rparr>\<rparr>) [Tick failing_light, Interrupt]
            = Raised OSError s' \<and> led_on (sensor s'))"
  using measure_failure_led_on [of "booted\<lparr>btnA := \<lparr>latched = True\<rparr>\<rparr>" failing_light]
  by (auto simp: boot_simps failing_light_def)

text \<open>
  C6: in gain mode, button A advances the gain index modulo the 11 gains, writes the
  current integration time and then the new gain code to the sensor, and redraws the
  gain screen.
\<close>

theorem tick_gain_cycle:
  assumes "current_mode s = 1" "latched (btnA s)"
  shows "\<exists>s'. tick env s = Running s' \<and> current_mode s' = 1
    \<and> gain_index s' = next_index (gain_index s) (length gain_codes)
    \<and> atime_index s' = atime_index s \<and> \<not> latched (btnA s')
    \<and> atime (sensor s') = atime_settings ! atime_index s
    \<and> again (sensor s') = gain_codes ! gain_index s'
    \<and> trace s' = trace s @ [SensorCall (SetAtime (atime_settings ! atime_index s)),
         SensorCall (SetAgain (gain_codes ! gain_index s'))]
       @ map TftCall (display_gain_settings s') @ [SleepMs 100]"
  using assms
  by (simp add: tick_mode1_A tick_gain_def call_defs Let_def screens_globals_of globals_of_def)

lemma tick_gain_cycle_witness:
  "current_mode (booted\<lparr>current_mode := 1, btnA := \<lparr>latched = True\<rparr>\<rparr>) = 1
   \<and> latched (btnA (booted\<lparr>current_mode := 1, btnA := \<lparr>latched = True\<rparr>\<rparr>))
   \<and> (\<exists>s'. tick sample_light (booted\<lparr>current_mode := 1, btnA := \<lparr>latched = True\<rparr>\<rparr>)
            = Running s' \<and> gain_index s' = 5 \<and> again (sensor s') = 5)"
  using tick_gain_cycle [of "booted\<lparr>current_mode := 1, btnA := \<lparr>latched = True\<rparr>\<rparr>" sample_light]
  by (auto simp: boot_simps next_index_def gain_codes_def)

text \<open>
  C7: in integration-time mode, button A advances the integration index modulo the 6
  settings, writes the new ATIME value and the current gain code to the sensor, and
  redraws the integration-time screen.
\<close>

theorem tick_integration_cycle:
  assumes "current_mode s = 2" "latched (btnA s)"
  shows "\<exists>s'. tick env s = Running s' \<and> current_mode s' = 2
    \<and> atime_index s' = next_index (atime_index s) (length atime_settings)
    \<and> gain_index s' = gain_index s \<and> \<not> latched (btnA s')
    \<and> atime (sensor s') = atime_settings ! atime_index s'
    \<and> again (sensor s') = gain_codes ! gain_index s
    \<and> trace s' = trace s @ [SensorCall (SetAtime (atime_settings ! atime_index s')),
         SensorCall (SetAgain (gain_codes ! gain_index s))]
       @ map TftCall (display_integration_settings s') @ [SleepMs 100]"
  using assms
  by (simp add: tick_mode2_A tick_integration_def call_defs Let_def screens_globals_of
      globals_of_def)

lemma tick_integration_cycle_witness:
  "current_mode (booted\<lparr>current_mode := 2, btnA := \<lparr>latched = True\<rparr>\<rparr>) = 2
   \<and> latched (btnA (booted\<lparr>current_mode := 2, btnA := \<lparr>latched = True\<rparr>\<rparr>))
   \<and> (\<exists>s'. tick sample_light (booted\<lparr>current_mode := 2, btnA := \<lparr>latched = True\<rparr>\<rparr>)
            = Running s' \<and> atime_index s' = 3 \<and> atime (sensor s') = 39)"
  using tick_integration_cycle [of "booted\<lparr>current_mode := 2, btnA := \<lparr>latched = True\<rparr>\<rparr>"
      sample_light]
  by (auto simp: boot_simps next_index_def atime_settings_def)

text \<open>
  C8: in wavelength mode, button A advances the selected channel modulo the 9 channels
  and redraws the wavelength screen, without any call to the sensor.
\<close>

theorem tick_wavelength_cycle:
  assumes "current_mode s = 3" "latched (btnA s)"
  shows "\<exists>s'. tick env s = Running s' \<and> current_mode s' = 3
    \<and> wavelength_index s' = next_index (wavelength_index s) (length wavelength_names)
    \<and> sensor s' = sensor s \<and> \<not> latched (btnA s')
    \<and> trace s' = trace s @ map TftCall (display_wavelength_selection s') @ [SleepMs 100]"
  using assms
  by (simp add: tick_mode3_A tick_wavelength_def call_defs Let_def screens_globals_of
      globals_of_def)

lemma tick_wavelength_cycle_witness:
  "current_mode (booted\<lparr>current_mode := 3, btnA := \<lparr>latched = True\<rparr>\<rparr>) = 3
   \<and> latched (btnA (booted\<lparr>current_mode := 3, btnA := \<lparr>latched = True\<rparr>\<rparr>))
   \<and> (\<exists>s'. tick sample_light (booted\<lparr>current_mode := 3, btnA := \<lparr>latched = True\<rparr>\<rparr>)
            = Running s' \<and> wavelength_index s' = 3)"
  using tick_wavelength_cycle [of "booted\<lparr>current_mode := 3, btnA := \<lparr>latched = True\<rparr>\<rparr>"
      sample_light]
  by (auto simp: boot_simps next_index_def)

text \<open>
  C10: button A is read first. When A is pressed, the iteration consumes the A press
  and leaves a pending B press latched for a later iteration.
\<close>

theorem tick_A_before_B:
  assumes "machine_inv s" "latched (btnA s)" "tick env s = Running s'"
  shows "\<not> latched (btnA s') \<and> latched (btnB s') = latched (btnB s)"
proof -
  have m: "current_mode s \<in> {0, 1, 2, 3}" using assms(1) by (auto simp: machine_inv_def)
  show ?thesis
  proof (cases "current_mode s = 0")
    case True
    then show ?thesis using assms(2,3)
      by (auto simp: tick_mode0_A take_measurement_def call_defs Let_def py_print_def
          sensor_call_def draw_def split: option.splits prod.splits)
  next
    case False
    with m assms(2,3) show ?thesis
      by (auto simp: tick_def handler_defs draw_def sensor_call_def)
  qed
qed

lemma tick_A_before_B_witness:
  "machine_inv (booted\<lparr>current_mode := 3, btnA := \<lparr>latched = True\<rparr>, btnB := \<lparr>latched = True\<rparr>\<rparr>)
   \<and> latched (btnB (sleep_ms 100 (tick_wavelength
       (booted\<lparr>current_mode := 3, btnA := \<lparr>latched = True\<rparr>, btnB := \<lparr>latched = True\<rparr>\<rparr>))))"
proof -
  let ?s = "booted\<lparr>current_mode := 3, btnA := \<lparr>latched = True\<rparr>, btnB := \<lparr>latched = True\<rparr>\<rparr>"
  have i: "machine_inv ?s"
    by (simp add: boot_simps machine_inv_def table_defs)
  have "tick sample_light ?s = Running (sleep_ms 100 (tick_wavelength ?s))"
    by (simp add: tick_mode3_A)
  from tick_A_before_B [OF i _ this] i show ?thesis by simp
qed
end
