(* ===== verification/Runs.thy ===== *)
theory Runs
  imports Controller
begin

text \<open>
  Whole runs of \<^verbatim>\<open>main.py\<close>: the start-up code followed by the event loop, up to an
  exit, an exception or the end of the observed events. This theory holds what spans
  several loop iterations: the start-up sequence with the sensor present and absent,
  the end of the program at a keyboard interrupt, the ranges of every argument passed to
  the driver, and the reachability of every wavelength by button presses.
\<close>

section \<open>The calls of a trace, by collaborator\<close>

fun sensor_calls :: "call list \<Rightarrow> sensor_op list" where
  "sensor_calls [] = []"
| "sensor_calls (SensorCall op # cs) = op # sensor_calls cs"
| "sensor_calls (TftCall op # cs) = sensor_calls cs"
| "sensor_calls (PrintCall m # cs) = sensor_calls cs"
| "sensor_calls (SleepMs n # cs) = sensor_calls cs"

fun tft_calls :: "call list \<Rightarrow> tft_op list" where
  "tft_calls [] = []"
| "tft_calls (TftCall op # cs) = op # tft_calls cs"
| "tft_calls (SensorCall op # cs) = tft_calls cs"
| "tft_calls (PrintCall m # cs) = tft_calls cs"
| "tft_calls (SleepMs n # cs) = tft_calls cs"

text \<open>A run that only presses buttons and loops, on a bus that never fails.\<close>

definition reliable :: "event list \<Rightarrow> bool" where
  "reliable es \<longleftrightarrow>
     (\<forall>e \<in> set es. e \<noteq> Interrupt \<and> (\<forall>env. e = Tick env \<longrightarrow> (\<forall>c. env c \<noteq> None)))"

section \<open>Lemmas\<close>

lemma sensor_calls_append [simp]: "sensor_calls (xs @ ys) = sensor_calls xs @ sensor_calls ys"
  by (induction xs rule: sensor_calls.induct) simp_all

lemma tft_calls_append [simp]: "tft_calls (xs @ ys) = tft_calls xs @ tft_calls ys"
  by (induction xs rule: tft_calls.induct) simp_all

lemma calls_map_TftCall [simp]:
  "sensor_calls (map TftCall ops) = []" "tft_calls (map TftCall ops) = ops"
  by (induction ops) simp_all

subsection \<open>Every primitive keeps the replay invariant\<close>

subsection \<open>Runs\<close>

lemma startup_True: "startup True = Running booted"
  by (simp add: boot_simps)

lemma main_True: "main True es = run booted es"
  by (simp add: main_def startup_True)

lemma reliable_Nil [simp]: "reliable []"
  by (simp add: reliable_def)

lemma reliable_Cons [simp]:
  "reliable (e # es) \<longleftrightarrow>
     e \<noteq> Interrupt \<and> (\<forall>env. e = Tick env \<longrightarrow> (\<forall>c. env c \<noteq> None)) \<and> reliable es"
  by (auto simp: reliable_def)

lemma tick_reliable:
  assumes "\<forall>c. env c \<noteq> None"
  shows "\<exists>s'. tick env s = Running s'"
proof (cases "current_mode s = 0 \<and> latched (btnA s)")
  case True
  obtain f1 f2 f3 f4 c1 n1 where d1: "env ''F1F4CN'' = Some (f1, f2, f3, f4, c1, n1)"
    using assms by (metis not_None_eq prod_cases6)
  obtain f5 f6 f7 f8 c2 nir where d2: "env ''F5F8CN'' = Some (f5, f6, f7, f8, c2, nir)"
    using assms by (metis not_None_eq prod_cases6)
  from True show ?thesis by (simp add: tick_mode0_A take_measurement_Some [OF d1 d2])
next
  case False
  then show ?thesis by (auto simp: tick_def handler_defs)
qed

lemma run_reliable: "reliable es \<Longrightarrow> \<exists>s'. run s es = Running s'"
proof (induction es arbitrary: s)
  case (Cons e es)
  have "\<exists>s1. step_event e s = Running s1"
  proof (cases e)
    case (Tick env)
    with Cons.prems have "\<forall>c. env c \<noteq> None" by simp
    with Tick show ?thesis using tick_reliable [of env s] by simp
  qed (use Cons.prems in simp_all)
  with Cons show ?case by auto
qed simp

lemma run_presses_mode3:
  "current_mode s = 3 \<Longrightarrow>
   \<exists>s'. run s (concat (replicate k [PressA, Tick env])) = Running s' \<and> current_mode s' = 3
     \<and> wavelength_index s' = ((\<lambda>j. next_index j (length wavelength_names)) ^^ k) (wavelength_index s)
     \<and> sensor s' = sensor s"
proof (induction k arbitrary: s)
  case (Suc k)
  let ?s1 = "sleep_ms 100 (tick_wavelength (s\<lparr>btnA := press (btnA s)\<rparr>))"
  have r1: "\<And>ys. run s (PressA # Tick env # ys) = run ?s1 ys"
    using Suc.prems by (simp add: tick_mode3_A)
  have f1: "current_mode ?s1 = 3" "sensor ?s1 = sensor s"
    "wavelength_index ?s1 = next_index (wavelength_index s) (length wavelength_names)"
    using Suc.prems by (simp_all add: tick_wavelength_def call_defs press_def Let_def)
  from Suc.IH [OF f1(1)] obtain s' where r: "run ?s1 (concat (replicate k [PressA, Tick env])) = Running s'"
    and m: "current_mode s' = 3"
    and w: "wavelength_index s' = ((\<lambda>j. next_index j (length wavelength_names)) ^^ k) (wavelength_index ?s1)"
    and sn: "sensor s' = sensor ?s1"
    by blast
  have "run s (concat (replicate (Suc k) [PressA, Tick env])) = Running s'" using r1 r by simp
  moreover have "wavelength_index s' =
      ((\<lambda>j. next_index j (length wavelength_names)) ^^ Suc k) (wavelength_index s)"
    using w f1(3) by (simp only: funpow_Suc_right comp_def)
  ultimately show ?case using m sn f1(2) by auto
qed simp

lemma table_args_ok [simp]:
  "i < length atime_settings \<Longrightarrow> atime_settings ! i < 256"
  "i < length gain_codes \<Longrightarrow> gain_codes ! i \<le> 10"
proof -
  have "list_all (\<lambda>n. n < 256) atime_settings" "list_all (\<lambda>n. n \<le> 10) gain_codes"
    by (simp_all add: table_defs)
  then show "i < length atime_settings \<Longrightarrow> atime_settings ! i < 256"
    "i < length gain_codes \<Longrightarrow> gain_codes ! i \<le> 10"
    by (simp_all add: list_all_length)
qed

lemma args_ok_take_measurement:
  "list_all sensor_arg_ok (sensor_calls (trace s)) \<Longrightarrow> take_measurement env s = Running s' \<Longrightarrow>
   list_all sensor_arg_ok (sensor_calls (trace s'))"
  by (auto simp: take_measurement_def call_defs Let_def split: option.splits prod.splits)

lemma args_ok_tick:
  assumes "machine_inv s" "list_all sensor_arg_ok (sensor_calls (trace s))"
    and "tick env s = Running s'"
  shows "list_all sensor_arg_ok (sensor_calls (trace s'))"
proof (cases "current_mode s = 0 \<and> latched (btnA s)")
  case True
  then obtain s1 where r: "take_measurement env (s\<lparr>btnA := (btnA s)\<lparr>latched := False\<rparr>\<rparr>) = Running s1"
    and s': "s' = sleep_ms 100 s1"
    using assms(3) by (auto simp: tick_mode0_A split: outcome.splits)
  have "list_all sensor_arg_ok (sensor_calls (trace s1))"
    using args_ok_take_measurement [OF _ r] assms(2) by simp
  then show ?thesis by (simp add: s')
next
  case False
  with assms show ?thesis
    by (auto simp: tick_def handler_defs machine_inv_def split: if_splits)
qed

text \<open>
  C12: with the sensor present, start-up asks the driver whether the chip answers, then
  writes measurement mode SPM, ATIME 29, ASTEP 599 and AGAIN 4 to the sensor, in this
  order and nothing else, and enters the loop
  in normal mode with the default indices; the literals 29 and 4 of the start-up code
  are the table entries the default indices select, so the sensor starts in the
  configuration the settings screens show.
\<close>

theorem startup_configures:
  "\<exists>s. startup True = Running s
     \<and> trace s = [SensorCall IsConnected,
                  SensorCall (SetMeasureMode AS7341_MODE_SPM), SensorCall (SetAtime 29),
                  SensorCall (SetAstep 599), SensorCall (SetAgain 4)]
     \<and> current_mode s = 0 \<and> gain_index s = 4 \<and> atime_index s = 2 \<and> wavelength_index s = 2
     \<and> atime (sensor s) = atime_settings ! atime_index s
     \<and> again (sensor s) = gain_codes ! gain_index s
     \<and> astep (sensor s) = 599 \<and> \<not> led_on (sensor s)"
  by (simp add: startup_def initial_machine_def as7341_new_def init_defs table_defs
      sensor_isconnected_def sensor_call_def Let_def)

text \<open>
  C13: with the sensor absent, start-up makes the one driver call
  \<open>sensor.isconnected()\<close>, prints the diagnostic, and ends the program before the loop
  with the \<open>NameError\<close> of \<open>sys.exit(1)\<close> (\<open>sys\<close> is never imported): the sensor is not
  configured, nothing is drawn, and whatever events follow, the program's outcome is
  this exception. The specification's clean exit with status 1 is not what the code does.
\<close>

theorem startup_absent_exits:
  "\<exists>s. startup False = Raised NameError s
     \<and> trace s = [SensorCall IsConnected, PrintCall ''Failed to contact AS7341, terminating'']
     \<and> sensor s = as7341_new False
     \<and> (\<forall>es. main False es = Raised NameError s)"
  by (simp add: main_def startup_def initial_machine_def as7341_new_def py_print_def
      sensor_isconnected_def sensor_call_def Let_def)

text \<open>
  C14: a keyboard interrupt after any run on a working bus ends the program with status
  0 through the handler: the last two calls are the message and \<open>sensor.disable()\<close>,
  the sensor ends powered down, and events after the interrupt are never processed.
\<close>

theorem interrupt_shutdown:
  assumes "reliable es"
  shows "\<exists>s'. main True (es @ Interrupt # rest) = Exited 0 s' \<and> \<not> powered (sensor s')
    \<and> (\<exists>pre. trace s' = pre @ [PrintCall ''Interrupted from keyboard'', SensorCall Disable])"
proof -
  obtain s1 where "run booted es = Running s1" using run_reliable [OF assms] by blast
  then have "main True (es @ Interrupt # rest) = Exited 0 (shutdown s1)"
    by (simp add: main_True run_append)
  then show ?thesis by (simp add: shutdown_def)
qed

lemma interrupt_shutdown_witness:
  "reliable [PressA, Tick sample_light]
   \<and> (\<exists>s'. main True ([PressA, Tick sample_light] @ [Interrupt, PressB]) = Exited 0 s'
          \<and> \<not> powered (sensor s'))"
proof -
  have r: "reliable [PressA, Tick sample_light]" by (simp add: sample_light_def)
  from r interrupt_shutdown [OF r, of "[PressB]"] show ?thesis by auto
qed

text \<open>
  C29: in wavelength mode every channel can be selected: from any valid selection,
  some number of A presses (each followed by a loop iteration) reaches any given
  channel, stays in wavelength mode and leaves the sensor untouched.
\<close>

theorem wavelength_selectable:
  assumes "current_mode s = 3" "wavelength_index s < length wavelength_names"
    and "w < length wavelength_names"
  shows "\<exists>es s'. run s es = Running s' \<and> current_mode s' = 3 \<and> wavelength_index s' = w
    \<and> sensor s' = sensor s"
proof -
  let ?k = "(w + 9 - wavelength_index s) mod 9"
  obtain s' where "run s (concat (replicate ?k [PressA, Tick (\<lambda>c. None)])) = Running s'"
    "current_mode s' = 3" "sensor s' = sensor s"
    "wavelength_index s' = ((\<lambda>j. next_index j (length wavelength_names)) ^^ ?k) (wavelength_index s)"
    using run_presses_mode3 [OF assms(1)] by blast
  moreover have "(wavelength_index s + ?k) mod 9 = w"
    using assms(2,3) by (simp add: mod_add_right_eq)
  ultimately show ?thesis using assms(2) by (auto simp: funpow_next_index)
qed

lemma wavelength_selectable_witness:
  "current_mode (booted\<lparr>current_mode := 3\<rparr>) = 3
   \<and> wavelength_index (booted\<lparr>current_mode := 3\<rparr>) < length wavelength_names
   \<and> (7::nat) < length wavelength_names
   \<and> (\<exists>es s'. run (booted\<lparr>current_mode := 3\<rparr>) es = Running s' \<and> wavelength_index s' = 7)"
proof -
  have h: "current_mode (booted\<lparr>current_mode := 3\<rparr>) = 3"
    "wavelength_index (booted\<lparr>current_mode := 3\<rparr>) < length wavelength_names"
    "(7::nat) < length wavelength_names"
    by (simp_all add: boot_simps)
  from wavelength_selectable [OF h] h show ?thesis by blast
qed

text \<open>
  C30: every argument the program passes to the sensor driver is in the driver's range:
  in every reachable state, each ATIME written fits 8 bits, each ASTEP 16 bits, each
  gain code is 0..10 and each LED current at most 100 mA.
\<close>

theorem sensor_args_valid: "reachable s \<Longrightarrow> list_all sensor_arg_ok (sensor_calls (trace s))"
proof (induction rule: reachable.induct)
  case (start s)
  then show ?case
    by (auto simp: startup_def initial_machine_def as7341_new_def sensor_isconnected_def
        sensor_call_def Let_def)
next
  case (step s e s')
  then show ?case
    by (cases e) (auto simp: press_def dest: reachable_inv args_ok_tick)
qed

lemma sensor_args_valid_witness:
  "reachable booted \<and> list_all sensor_arg_ok (sensor_calls (trace booted))"
proof -
  have r: "reachable booted" by (rule reachable.start) (rule startup_True)
  from r sensor_args_valid [OF r] show ?thesis by simp
qed


end
