(* ===== verification/Interrupts.thy ===== *)
theory Interrupts
  imports Runs
begin

text \<open>
  A \<open>KeyboardInterrupt\<close> arriving inside an iteration of the loop. MicroPython raises it
  between two operations of the running code; the \<open>try\<close> around the whole loop
  (lines 189--241) then abandons the iteration, prints the message, and
  \<open>sensor.disable()\<close> runs. The model delivers the interrupt at the boundary between
  two external calls: an iteration interrupted after its first \<open>k\<close> calls has made
  exactly those calls, so the sensor and the display are those calls applied to the
  state before the iteration, and then the handler runs. The globals left
  half-updated are not read again, since the program ends.
\<close>

section \<open>Interrupted iterations\<close>

text \<open>The calls one iteration makes, whether it finishes or raises.\<close>

definition iteration_calls :: "light \<Rightarrow> machine \<Rightarrow> call list" where
  "iteration_calls env s = drop (length (trace s)) (trace (outcome_state (tick env s)))"

definition interrupted :: "machine \<Rightarrow> call list \<Rightarrow> machine" where
  "interrupted s cs =
     s\<lparr>sensor := sensor_replay (sensor s) (sensor_calls cs), tft := tft_exec (tft s) (tft_calls cs),
       trace := trace s @ cs\<rparr>"

definition tick_interrupted :: "light \<Rightarrow> machine \<Rightarrow> nat \<Rightarrow> machine outcome" where
  "tick_interrupted env s k = Exited 0 (shutdown (interrupted s (take k (iteration_calls env s))))"

section \<open>Lemmas\<close>

lemma sensor_calls_take_subset: "set (sensor_calls (take j xs)) \<subseteq> set (sensor_calls xs)"
proof -
  have "sensor_calls xs = sensor_calls (take j xs) @ sensor_calls (drop j xs)"
    by (simp flip: sensor_calls_append)
  then show ?thesis by (metis set_append sup_ge1)
qed

lemma measure_iteration_calls:
  assumes "current_mode s = 0" "latched (btnA s)"
    and "env ''F1F4CN'' = Some (f1, f2, f3, f4, c1, n1)"
    and "env ''F5F8CN'' = Some (f5, f6, f7, f8, c2, nir)"
  shows "iteration_calls env s =
    [PrintCall ''Taking measurement'', SensorCall (SetLedCurrent 25), SensorCall (EnableLed True)]
    @ ([SensorCall (StartMeasure ''F1F4CN''), SensorCall GetSpectralData,
        SensorCall (StartMeasure ''F5F8CN''), SensorCall GetSpectralData]
       @ map TftCall (display_spectrum s f1 f2 f3 f4 f5 f6 f7 f8 nir))
    @ [SensorCall (EnableLed False), SleepMs 100]"
  using assms
  by (simp add: iteration_calls_def tick_mode0_A take_measurement_Some [where s = "s\<lparr>btnA := _\<rparr>"]
      screens_globals_of globals_of_def)

section \<open>Properties\<close>

text \<open>
  C32: an interrupt during a measurement, after the LED is switched on and before it is
  switched off, cancels the acquisition: the handler disables the sensor with the LED
  still enabled, and no LED-off call is made. The specification says an acquisition,
  once started, runs to completion with the LED released.
\<close>

theorem interrupt_mid_measure:
  assumes "current_mode s = 0" "latched (btnA s)"
    and "env ''F1F4CN'' = Some (f1, f2, f3, f4, c1, n1)"
    and "env ''F5F8CN'' = Some (f5, f6, f7, f8, c2, nir)"
    and "3 \<le> k" "k \<le> 7 + length (display_spectrum s f1 f2 f3 f4 f5 f6 f7 f8 nir)"
  shows "\<exists>s'. tick_interrupted env s k = Exited 0 s' \<and> led_on (sensor s') \<and> \<not> powered (sensor s')
    \<and> SensorCall (EnableLed False) \<notin> set (drop (length (trace s)) (trace s'))"
proof -
  define pre where "pre = [PrintCall ''Taking measurement'', SensorCall (SetLedCurrent 25),
    SensorCall (EnableLed True)]"
  define mid where "mid = [SensorCall (StartMeasure ''F1F4CN''), SensorCall GetSpectralData,
    SensorCall (StartMeasure ''F5F8CN''), SensorCall GetSpectralData]
    @ map TftCall (display_spectrum s f1 f2 f3 f4 f5 f6 f7 f8 nir)"
  define post where "post = [SensorCall (EnableLed False), SleepMs 100]"
  have ic: "iteration_calls env s = pre @ mid @ post"
    unfolding pre_def mid_def post_def by (rule measure_iteration_calls [OF assms(1-4)])
  have lp: "length pre = 3" "length mid = 4 + length (display_spectrum s f1 f2 f3 f4 f5 f6 f7 f8 nir)"
    by (simp_all add: pre_def mid_def)
  have tk: "take k (iteration_calls env s) = pre @ take (k - 3) mid"
    using assms(5,6) lp by (simp add: ic take_append)
  have sm: "set (sensor_calls (take (k - 3) mid)) \<subseteq>
      {StartMeasure ''F1F4CN'', GetSpectralData, StartMeasure ''F5F8CN''}"
    using sensor_calls_take_subset [of "k - 3" mid] by (auto simp: mid_def)
  have tm: "SensorCall (EnableLed False) \<notin> set (take (k - 3) mid)"
    using set_take_subset [of "k - 3" mid] by (auto simp: mid_def)
  let ?x = "sensor_replay (sensor s) (sensor_calls (pre @ take (k - 3) mid))"
  have "led_on ?x"
  proof -
    have "?x = sensor_replay (sensor_replay (sensor s) [SetLedCurrent 25, EnableLed True])
        (sensor_calls (take (k - 3) mid))"
      by (simp add: pre_def sensor_replay_append [symmetric])
    also have "led_on \<dots> = led_on (sensor_replay (sensor s) [SetLedCurrent 25, EnableLed True])"
      using sm by (intro led_on_sensor_replay [of True]) auto
    finally show ?thesis by (simp add: sensor_replay_def)
  qed
  moreover have "SensorCall (EnableLed False) \<notin> set pre" by (simp add: pre_def)
  ultimately show ?thesis using tm
    by (simp add: tick_interrupted_def tk interrupted_def shutdown_def sensor_call_def py_print_def
        led_on_sensor_apply)
qed

lemma interrupt_mid_measure_witness:
  "current_mode (booted\<lparr>btnA := \<lparr>latched = True\<rparr>\<rparr>) = 0
   \<and> latched (btnA (booted\<lparr>btnA := \<lparr>latched = True\<rparr>\<rparr>))
   \<and> sample_light ''F1F4CN'' = Some (10, 20, 30, 40, 0, 0)
   \<and> sample_light ''F5F8CN'' = Some (50, 60, 70, 80, 0, 90)
   \<and> 3 \<le> (5::nat)
   \<and> 5 \<le> 7 + length (display_spectrum (booted\<lparr>btnA := \<lparr>latched = True\<rparr>\<rparr>) 10 20 30 40 50 60 70 80 90)
   \<and> (\<exists>s'. tick_interrupted sample_light (booted\<lparr>btnA := \<lparr>latched = True\<rparr>\<rparr>) 5 = Exited 0 s'
        \<and> led_on (sensor s'))"
proof -
  have h: "current_mode (booted\<lparr>btnA := \<lparr>latched = True\<rparr>\<rparr>) = 0"
    "latched (btnA (booted\<lparr>btnA := \<lparr>latched = True\<rparr>\<rparr>))"
    "sample_light ''F1F4CN'' = Some (10, 20, 30, 40, 0, 0)"
    "sample_light ''F5F8CN'' = Some (50, 60, 70, 80, 0, 90)"
    "3 \<le> (5::nat)"
    "5 \<le> 7 + length (display_spectrum (booted\<lparr>btnA := \<lparr>latched = True\<rparr>\<rparr>) 10 20 30 40 50 60 70 80 90)"
    by (simp_all add: boot_simps sample_light_def)
  from interrupt_mid_measure [OF h] h show ?thesis by blast
qed

end
