(* ===== verification/Canvas.thy ===== *)
theory Canvas
  imports Runs
begin

text \<open>
  Where the spectrum screen composes with the measurement and the sensor: the AS7341
  delivers 16-bit channel counts, the measurement hands the nine counts to
  \<open>display_spectrum\<close>, and the renderer turns them into rectangles. This theory carries
  the geometry of one screen (\<open>Screens.rect_placed\<close>) to every rectangle the program
  draws in a whole run, whatever the buttons, the bus errors and the interrupts.
\<close>

section \<open>The sensor's range over a run\<close>

text \<open>
  A light whose two acquisitions (\<open>F1F4CN\<close> and \<open>F5F8CN\<close>, the only channel sets the
  program selects) return counts of the AS7341's 16-bit data registers, when they return.
\<close>

definition reads_16bit :: "light \<Rightarrow> bool" where
  "reads_16bit env =
     list_all (\<lambda>cfg. case env cfg of None \<Rightarrow> True
                      | Some (a, b, c, d, e, f) \<Rightarrow> list_all (\<lambda>v. v < 2 ^ 16) [a, b, c, d, e, f])
       [''F1F4CN'', ''F5F8CN'']"

fun ticks_16bit :: "event list \<Rightarrow> bool" where
  "ticks_16bit [] = True"
| "ticks_16bit (Tick env # es) = (reads_16bit env \<and> ticks_16bit es)"
| "ticks_16bit (_ # es) = ticks_16bit es"

text \<open>Every rectangle the trace has sent to the display is placed.\<close>

definition rects_placed :: "machine \<Rightarrow> bool" where
  "rects_placed s \<longleftrightarrow> list_all rect_placed (tft_calls (trace s))"

section \<open>Lemmas\<close>

lemma rects_placed_prims [simp]:
  "rects_placed (sensor_call op s) = rects_placed s"
  "rects_placed (draw ops s) = (rects_placed s \<and> list_all rect_placed ops)"
  "rects_placed (py_print m s) = rects_placed s"
  "rects_placed (sleep_ms n s) = rects_placed s"
  by (simp_all add: rects_placed_def)

lemma rects_placed_updates [simp]:
  "rects_placed (s\<lparr>gain_index := g\<rparr>) = rects_placed s"
  "rects_placed (s\<lparr>atime_index := a\<rparr>) = rects_placed s"
  "rects_placed (s\<lparr>current_mode := m\<rparr>) = rects_placed s"
  "rects_placed (s\<lparr>wavelength_index := w\<rparr>) = rects_placed s"
  "rects_placed (s\<lparr>btnA := b\<rparr>) = rects_placed s"
  "rects_placed (s\<lparr>btnB := b\<rparr>) = rects_placed s"
  by (simp_all add: rects_placed_def)

lemma settings_screens_placed [simp]:
  "list_all rect_placed (display_gain_settings g)"
  "list_all rect_placed (display_integration_settings g)"
  "list_all rect_placed (display_wavelength_selection g)"
  by (simp_all add: display_gain_settings_def display_integration_settings_def
      display_wavelength_selection_def Let_def)

lemma list_max_less: "list_max xs < n \<longleftrightarrow> 0 < n \<and> (\<forall>x \<in> set xs. x < n)"
  by (induction xs rule: list_max.induct) auto

lemma reads_16bit_max:
  assumes "reads_16bit env"
    and "env ''F1F4CN'' = Some (f1, f2, f3, f4, c1, n1)"
    and "env ''F5F8CN'' = Some (f5, f6, f7, f8, c2, nir)"
  shows "list_max [f1, f2, f3, f4, f5, f6, f7, f8, nir] < 2 ^ 16"
  unfolding list_max_less using assms by (simp add: reads_16bit_def)

lemma rects_placed_take_measurement:
  assumes "rects_placed s" "reads_16bit env"
  shows "rects_placed (outcome_state (take_measurement env s))"
proof (cases "env ''F1F4CN'' = None \<or> env ''F5F8CN'' = None")
  case True
  with assms(1) show ?thesis
    by (auto simp: take_measurement_def call_defs Let_def sensor_call_def py_print_def
        rects_placed_def split: option.splits prod.splits)
next
  case False
  then obtain f1 f2 f3 f4 c1 n1 f5 f6 f7 f8 c2 nir
    where d1: "env ''F1F4CN'' = Some (f1, f2, f3, f4, c1, n1)"
      and d2: "env ''F5F8CN'' = Some (f5, f6, f7, f8, c2, nir)"
    by (metis not_None_eq prod_cases6)
  have "list_all rect_placed (display_spectrum s f1 f2 f3 f4 f5 f6 f7 f8 nir)"
    by (rule display_spectrum_placed [OF reads_16bit_max [OF assms(2) d1 d2]])
  then show ?thesis
    using assms(1) take_measurement_Some [OF d1 d2, of s] by (simp add: rects_placed_def)
qed

lemma rects_placed_tick:
  assumes "rects_placed s" "reads_16bit env"
  shows "rects_placed (outcome_state (tick env s))"
proof (cases "current_mode s = 0 \<and> latched (btnA s)")
  case True
  then show ?thesis
    using rects_placed_take_measurement [OF _ assms(2), of "s\<lparr>btnA := (btnA s)\<lparr>latched := False\<rparr>\<rparr>"]
      assms(1)
    by (cases "take_measurement env (s\<lparr>btnA := (btnA s)\<lparr>latched := False\<rparr>\<rparr>)")
      (simp_all add: tick_mode0_A)
next
  case False
  with assms(1) show ?thesis
    by (auto simp: tick_def handler_defs split: if_splits)
qed

lemma rects_placed_step_event:
  "rects_placed s \<Longrightarrow> (\<And>env. e = Tick env \<Longrightarrow> reads_16bit env) \<Longrightarrow>
   rects_placed (outcome_state (step_event e s))"
  by (cases e) (simp_all add: rects_placed_tick shutdown_def)

lemma rects_placed_run:
  "rects_placed s \<Longrightarrow> ticks_16bit es \<Longrightarrow> rects_placed (outcome_state (run s es))"
proof (induction es arbitrary: s)
  case (Cons e es)
  have "ticks_16bit es" "\<And>env. e = Tick env \<Longrightarrow> reads_16bit env"
    using Cons.prems(2) by (cases e; simp)+
  with Cons.IH Cons.prems(1) rects_placed_step_event [of s e] show ?case
    by (auto split: outcome.splits)
qed simp

lemma rects_placed_startup: "rects_placed (outcome_state (startup present))"
  by (simp add: startup_def initial_machine_def Let_def rects_placed_def sensor_call_def py_print_def
      sensor_isconnected_def)

text \<open>
  C33: in every run of the program whose acquisitions stay in the sensor's 16-bit range,
  whatever the buttons, the bus failures and the interrupt, every rectangle drawn on the
  display lies inside the canvas horizontally and below the header: each filled bar stands
  on the bottom edge of the canvas, and each highlight frame reaches two pixels below it
  (its bottom edge at \<open>y = 242\<close> is not on the 240-pixel display).
\<close>

theorem canvas_placement:
  "ticks_16bit es \<Longrightarrow>
   list_all rect_placed (tft_calls (trace (outcome_state (main present es))))"
proof -
  assume "ticks_16bit es"
  then have "rects_placed (outcome_state (main present es))"
    using rects_placed_startup [of present] rects_placed_run
    by (auto simp: main_def split: outcome.splits)
  then show ?thesis by (simp add: rects_placed_def)
qed

lemma canvas_placement_witness:
  "ticks_16bit [PressA, Tick sample_light, PressB, Tick failing_light, Interrupt]
   \<and> list_all rect_placed (tft_calls (trace (outcome_state
       (main True [PressA, Tick sample_light, PressB, Tick failing_light, Interrupt]))))"
proof -
  have h: "ticks_16bit [PressA, Tick sample_light, PressB, Tick failing_light, Interrupt]"
    by (simp add: reads_16bit_def sample_light_def failing_light_def)
  show ?thesis by (rule conjI [OF h canvas_placement [OF h]])
qed

end
