(* ===== verification/ModeSpec.thy ===== *)
theory ModeSpec
  imports Main
begin

text \<open>
  The abstract ModeStateMachine of the specification (section 4.3): four named modes,
  the three parameter indices, and one transition per (mode, button) pair with the
  effects the specification lists for it. Nothing here is code; \<open>Spec2Isabelle\<close>
  proves that the loop body of \<^verbatim>\<open>main.py\<close> implements this table. The lemmas show
  the properties of the table itself: the B button cycles through the modes with period
  four, and A never changes the mode.
\<close>

datatype mode = Normal | GainSettings | IntegrationSettings | WavelengthSelect

datatype press_event = EvA | EvB | EvNone

datatype effect =
    Acquire  \<comment> \<open>run the acquisition sequence and render the spectrum\<close>
  | PushConfig  \<comment> \<open>write the current integration time and gain to the sensor\<close>
  | RenderGain
  | RenderIntegration
  | RenderWavelength
  | ClearScreen

record config =
  mode :: mode
  cfg_gain :: nat
  cfg_atime :: nat
  cfg_wave :: nat

definition n_gains :: nat where "n_gains = 11"
definition n_atimes :: nat where "n_atimes = 6"
definition n_waves :: nat where "n_waves = 9"

fun spec_step :: "config \<Rightarrow> press_event \<Rightarrow> config \<times> effect list" where
  "spec_step c EvNone = (c, [])"
| "spec_step c EvA =
     (case mode c of
        Normal \<Rightarrow> (c, [Acquire])
      | GainSettings \<Rightarrow> (c\<lparr>cfg_gain := (cfg_gain c + 1) mod n_gains\<rparr>, [PushConfig, RenderGain])
      | IntegrationSettings \<Rightarrow>
          (c\<lparr>cfg_atime := (cfg_atime c + 1) mod n_atimes\<rparr>, [PushConfig, RenderIntegration])
      | WavelengthSelect \<Rightarrow> (c\<lparr>cfg_wave := (cfg_wave c + 1) mod n_waves\<rparr>, [RenderWavelength]))"
| "spec_step c EvB =
     (case mode c of
        Normal \<Rightarrow> (c\<lparr>mode := WavelengthSelect\<rparr>, [RenderWavelength])
      | GainSettings \<Rightarrow> (c\<lparr>mode := IntegrationSettings\<rparr>, [RenderIntegration])
      | IntegrationSettings \<Rightarrow> (c\<lparr>mode := Normal\<rparr>, [ClearScreen])
      | WavelengthSelect \<Rightarrow> (c\<lparr>mode := GainSettings\<rparr>, [RenderGain]))"

text \<open>The mode reached by B alone.\<close>

primrec next_mode_B :: "mode \<Rightarrow> mode" where
  "next_mode_B Normal = WavelengthSelect"
| "next_mode_B WavelengthSelect = GainSettings"
| "next_mode_B GainSettings = IntegrationSettings"
| "next_mode_B IntegrationSettings = Normal"

lemma mode_spec_step_B: "mode (fst (spec_step c EvB)) = next_mode_B (mode c)"
  by (cases "mode c") simp_all

lemma mode_spec_step_A: "mode (fst (spec_step c EvA)) = mode c"
  by (cases "mode c") simp_all

lemma next_mode_B_period: "(next_mode_B ^^ 4) m = m"
  by (cases m) (simp_all add: numeral_eq_Suc)

lemma next_mode_B_reaches_Normal: "\<exists>k \<le> 3. (next_mode_B ^^ k) m = Normal"
proof (cases m)
  case Normal
  then show ?thesis by (intro exI [of _ 0]) simp
next
  case GainSettings
  then show ?thesis by (intro exI [of _ 2]) (simp add: numeral_eq_Suc)
next
  case IntegrationSettings
  then show ?thesis by (intro exI [of _ 1]) simp
next
  case WavelengthSelect
  then show ?thesis by (intro exI [of _ 3]) (simp add: numeral_eq_Suc)
qed

end
