(* ===== verification/Spec2Isabelle.thy ===== *)
theory Spec2Isabelle
  imports Interrupts Canvas ModeSpec
begin

text \<open>
  \<^bold>\<open>Pocket-Spectrometer V2: a verification model of \<^verbatim>\<open>src/Software/main.py\<close>.\<close>

  \<^bold>\<open>The program.\<close> \<^verbatim>\<open>main.py\<close> is a MicroPython script for an M5Stack (ESP32) with an
  AS7341 11-channel spectral sensor. Module-level code sets the globals (lines 11--19),
  constructs the sensor driver and stops if it does not answer (lines 21--24),
  configures the sensor (lines 26--29), defines the LED helpers, \<open>update_settings\<close> and
  four screen routines, and runs a \<open>while True\<close> loop (lines 189--238) that polls button
  A before button B in one of four modes (0 normal, 1 gain, 2 integration time, 3
  wavelength), sleeping 100 ms per iteration. A \<open>KeyboardInterrupt\<close> ends the loop
  (lines 240--241) and the sensor is disabled (line 243). The sensor driver, the display
  and the buttons are collaborators outside the repository.

  \<^bold>\<open>Theories.\<close>
  \<^item> \<open>Prelude\<close>: the outcome of Python code (\<open>Running\<close>, \<open>Exited\<close>, \<open>Raised\<close> with
    \<open>OSError\<close> or \<open>NameError\<close>) and the built-ins the script calls: \<open>str()\<close> of ints
    and one-decimal floats, \<open>int()\<close> of a float, \<open>round(x, 1)\<close>, \<open>max()\<close>.
  \<^item> \<open>Floats\<close>: rounding to a float of \<open>n\<close> significand bits (\<open>fl_prec\<close>), the
    interpreter's width \<open>float_sig\<close> and its rounding \<open>fl\<close>, and the error lemmas.
  \<^item> \<open>Params\<close> (ParameterModel): the tables and defaults of lines 11--19, the colour
    constants of lines 44--52, the record \<open>globals\<close> of the four mutable globals, the
    index arithmetic \<open>(i + 1) % n\<close> and \<open>atime_ms\<close>.
  \<^item> \<open>Sensor\<close>, \<open>Display\<close> (SensorPort, InputPort, DisplayPort): the collaborators,
    modelled from section 6 of the specification, each as a datatype of the operations
    the script calls and their effect on a record of state: \<open>sensor_apply\<close> on the
    registers of \<open>as7341\<close> (with the argument ranges \<open>sensor_arg_ok\<close>), \<open>tft_exec\<close> on
    the drawn items of \<open>tft_state\<close>, and \<open>was_pressed\<close> on a latched button.
  \<^item> \<open>Screens\<close> (SpectrumRenderer): the four screen routines \<open>display_gain_settings\<close>,
    \<open>display_integration_settings\<close>, \<open>display_wavelength_selection\<close> and
    \<open>display_spectrum\<close> (lines 59--187) as the lists of display calls they make.
  \<^item> \<open>Controller\<close> (ModeStateMachine, AcquisitionSequencer): the record \<open>machine\<close> (globals,
    sensor, display, the two button latches, and the trace of external calls), one
    definition per function and per branch of the loop body (\<open>take_measurement\<close>,
    \<open>tick_normal\<close>, \<open>tick_gain\<close>, \<open>tick_integration\<close>, \<open>tick_wavelength\<close>, \<open>tick\<close>),
    \<open>startup\<close> with \<open>sensor_isconnected\<close>, \<open>shutdown\<close>, the event-driven \<open>run\<close> and
    \<open>main\<close>, and the inductive set of \<open>reachable\<close> states.
  \<^item> \<open>Runs\<close> (start-up and shutdown, whole runs): start-up with the sensor present and
    absent, the end at a keyboard interrupt, driver argument ranges, selectability of
    channels.
  \<^item> \<open>Interrupts\<close>: a \<open>KeyboardInterrupt\<close> arriving between any two external calls of
    an iteration (\<open>tick_interrupted\<close>) and its effect on a running measurement.
  \<^item> \<open>Canvas\<close> (sensor, measurement and renderer together): the placement of every
    rectangle drawn in a whole run (\<open>Screens.rect_placed\<close>), for acquisitions in the
    sensor's 16-bit range (\<open>reads_16bit\<close>, \<open>ticks_16bit\<close>).
  \<^item> \<open>ModeSpec\<close>: the specification's abstract mode machine \<open>spec_step\<close> (not code).
  \<^item> this theory: the abstraction \<open>abs_config\<close> from machines to the specification's
    configurations, the refinement theorem, the redraw discipline, and the B-button ring.

  \<^bold>\<open>How the state and the operations correspond to the code.\<close> A global of the script
  is a field of \<open>machine\<close>; a Python function is a function \<open>machine \<Rightarrow> machine\<close>
  (or \<open>machine outcome\<close> when it can raise) that performs the same calls in the same
  order, each call appending to \<open>trace\<close> and updating the collaborator's state.
  \<open>btnX.wasPressed()\<close> reads and clears the latch, so the \<open>if/elif\<close> of the source reads
  B only when A was not pressed. An iteration of \<open>while True\<close> is \<open>tick env\<close>, where
  \<open>env\<close> gives what the sensor reads for a channel set (\<open>None\<close>: the I2C read fails and
  raises \<open>OSError\<close>, which leaves the loop and the \<open>try\<close>, so neither the handler nor
  \<open>sensor.disable()\<close> runs). The environment of a run is a list of events: presses,
  iterations, and the interrupt, which \<open>run\<close> delivers between iterations;
  \<open>Interrupts\<close> delivers it after any number of the calls of one iteration. Line 24,
  \<open>sys.exit(1)\<close>, names a module the script never imports: the model raises
  \<open>NameError\<close> there, taking the driver module (not in the repository) not to export
  \<open>sys\<close>.

  \<^bold>\<open>No fuel.\<close> The loop body is total (every branch is a finite composition of calls),
  and the infinite loop is observed through finite prefixes of events, so \<open>run\<close> is
  structural recursion on the event list and needs no fuel or bound.

  \<^bold>\<open>Numbers.\<close> Python ints are unbounded \<open>nat\<close>/\<open>int\<close>; nothing in the script
  overflows. A float is the rational it denotes, rounded to nearest, ties to even, after
  every float operation of the script (the literal \<open>2.78\<close>, \<open>int * float\<close>, the true
  division \<open>125 / max_val\<close>) to the interpreter's format. The M5Stack firmware is
  MicroPython's ESP32 port, whose floats are C \<open>float\<close>s, IEEE binary32
  (\<open>float_sig = 24\<close>); the renderer's height theorems are stated for every width from
  24 bits, so they hold for a double-precision build as well. Concrete values are
  binary32: the tallest bar of the specification's sample readings is 124 pixels (it
  is 125 in binary64). \<open>round(x, 1)\<close> and \<open>str()\<close> are applied to the exact value of
  the float, and the time strings shown are the same in both formats. Readings are
  taken below \<open>2 ^ 16\<close>, the range of the sensor's 16-bit channel registers, where the
  height lemmas need it.

  \<^bold>\<open>What the lemmas show.\<close> The invariant \<open>machine_inv\<close> (indices in range, mode in
  0..3, sensor registers matching the indices, LED off) holds in every reachable state,
  so no list index of the script is out of range and \<open>IndexError\<close> cannot occur. Each
  branch of the loop body has its exact effect and trace; the refinement theorem ties
  every iteration to the specification's table, every change of mode or parameter
  redraws the screen exactly once, and the B ring has period four. The measurement
  turns the LED on and off once each, but a failing read leaves it on (a divergence
  from the specification's guaranteed release). The renderer's bars fit the canvas side
  by side and below the header, the heights are the integer quotients up to one pixel
  where the exact value is an integer, the tallest bar is 124 or 125 pixels, the
  information lines repeat the settings screens' values, and the wavelength labels are
  drawn at \<open>y = 245\<close>, below the 240-pixel canvas. In every run with 16-bit readings,
  whatever the buttons, bus errors and interrupt, each filled rectangle the program
  draws stands on the bottom edge inside the canvas and below the header, and the
  highlight frame of line 149 reaches two pixels below the canvas (\<open>y + h = 242\<close>).
  Over whole runs: every argument passed to the driver is in its range, start-up
  configures exactly the defaults after asking whether the chip answers, or ends with
  \<open>NameError\<close> before the loop when it does not, an interrupt always ends the program
  through \<open>sensor.disable()\<close>, and every channel is selectable. An interrupt inside a
  measurement cancels it with the LED on, against the specification's "runs to
  completion".

  \<^bold>\<open>Not modelled.\<close> The construction of the I2C bus and pins (line 8) and of the
  display object (line 41), the drivers' register protocols and timing (their effect
  on the registers the script writes is modelled, not the bus traffic), the duration
  of \<open>sleep_ms\<close>, an interrupt arriving inside a driver call (it is delivered only
  between calls), float overflow and subnormals (never reached: the script's floats lie
  between \<open>2 ^ -16\<close> and \<open>2 ^ 24\<close>), and the digit-level algorithms of MicroPython's float
  parser, \<open>round()\<close> and float printing, which are taken to be correctly rounded.
\<close>

section \<open>Refinement of the specification's mode machine\<close>

text \<open>
  The abstraction reads the integer mode of the source as the specification's mode and
  the pending button press as the event of the iteration: A when its latch is set (A is
  read first), otherwise B when its latch is set.
\<close>

definition mode_of :: "int \<Rightarrow> mode" where
  "mode_of m =
     (if m = 0 then Normal else if m = 1 then GainSettings
      else if m = 2 then IntegrationSettings else WavelengthSelect)"

definition abs_config :: "machine \<Rightarrow> config" where
  "abs_config s = \<lparr>mode = mode_of (current_mode s), cfg_gain = gain_index s,
     cfg_atime = atime_index s, cfg_wave = wavelength_index s\<rparr>"

definition pending :: "machine \<Rightarrow> press_event" where
  "pending s = (if latched (btnA s) then EvA else if latched (btnB s) then EvB else EvNone)"

text \<open>The drawing calls an iteration makes, from the trace before and after it.\<close>

definition iteration_draws :: "machine \<Rightarrow> machine \<Rightarrow> tft_op list" where
  "iteration_draws s s' = tft_calls (drop (length (trace s)) (trace s'))"

lemmas abs_defs = abs_config_def pending_def mode_of_def n_gains_def n_atimes_def n_waves_def
  next_index_def

lemma machine_inv_modes:
  "machine_inv s \<Longrightarrow>
   current_mode s = 0 \<or> current_mode s = 1 \<or> current_mode s = 2 \<or> current_mode s = 3"
  by (auto simp: machine_inv_def)

lemma tick_abs_step:
  assumes inv: "machine_inv s" and r: "tick env s = Running s'"
  shows "abs_config s' = fst (spec_step (abs_config s) (pending s))"
  using machine_inv_modes [OF inv]
proof (elim disjE)
  assume m: "current_mode s = 0"
  show ?thesis
  proof (cases "latched (btnA s)")
    case True
    with m r obtain s'' where "take_measurement env (s\<lparr>btnA := (btnA s)\<lparr>latched := False\<rparr>\<rparr>)
        = Running s''" and "s' = sleep_ms 100 s''"
      by (auto simp: tick_mode0_A split: outcome.splits)
    with m True show ?thesis by (auto simp: abs_defs dest!: take_measurement_keeps)
  next
    case False
    with m r show ?thesis
      by (auto simp: tick_def handler_defs abs_defs draw_def split: if_splits)
  qed
next
  assume "current_mode s = 1"
  with r show ?thesis
    by (auto simp: tick_def handler_defs abs_defs draw_def sensor_call_def split: if_splits)
next
  assume "current_mode s = 2"
  with r show ?thesis
    by (auto simp: tick_def handler_defs abs_defs draw_def sensor_call_def split: if_splits)
next
  assume "current_mode s = 3"
  with r show ?thesis
    by (auto simp: tick_def handler_defs abs_defs draw_def split: if_splits)
qed

text \<open>
  C2: every loop iteration that does not raise moves the abstract configuration exactly
  as the specification's transition table says for the pending button.
\<close>

theorem tick_refines_spec:
  assumes "machine_inv s" "tick env s = Running s'"
  shows "abs_config s' = fst (spec_step (abs_config s) (pending s))"
  using assms by (rule tick_abs_step)

lemma tick_refines_spec_witness:
  "machine_inv (booted\<lparr>btnB := \<lparr>latched = True\<rparr>\<rparr>)
   \<and> (\<exists>s'. tick sample_light (booted\<lparr>btnB := \<lparr>latched = True\<rparr>\<rparr>) = Running s'
        \<and> mode (abs_config s') = WavelengthSelect)"
proof -
  let ?s = "booted\<lparr>btnB := \<lparr>latched = True\<rparr>\<rparr>"
  have i: "machine_inv ?s" by (simp add: boot_simps machine_inv_def table_defs)
  have "\<exists>s'. tick sample_light ?s = Running s'"
    by (simp add: tick_def handler_defs boot_simps)
  then obtain s' where r: "tick sample_light ?s = Running s'" ..
  have "abs_config s' = fst (spec_step (abs_config ?s) (pending ?s))"
    by (rule tick_refines_spec [OF i r])
  with i r show ?thesis by (simp add: abs_defs boot_simps)
qed

text \<open>
  C11: the redraw discipline of the specification's mode machine: a loop iteration that
  changes the mode or a parameter clears and redraws the screen exactly once, and an
  iteration that changes nothing and takes no measurement draws nothing.
\<close>

theorem redraw_on_change:
  assumes inv: "machine_inv s" and r: "tick env s = Running s'"
  shows "(abs_config s' \<noteq> abs_config s \<longrightarrow> count_list (iteration_draws s s') (Clear TFT_BLACK) = 1)
    \<and> (abs_config s' = abs_config s \<and> \<not> (current_mode s = 0 \<and> latched (btnA s))
         \<longrightarrow> iteration_draws s s' = [])"
  using machine_inv_modes [OF inv]
proof (elim disjE)
  assume m: "current_mode s = 0"
  show ?thesis
  proof (cases "latched (btnA s)")
    case True
    with m r obtain s'' where "take_measurement env (s\<lparr>btnA := (btnA s)\<lparr>latched := False\<rparr>\<rparr>)
        = Running s''" and "s' = sleep_ms 100 s''"
      by (auto simp: tick_mode0_A split: outcome.splits)
    with m True show ?thesis by (auto simp: abs_defs dest!: take_measurement_keeps)
  next
    case False
    with m r show ?thesis
      by (auto simp: tick_def handler_defs abs_defs iteration_draws_def split: if_splits)
  qed
next
  assume "current_mode s = 1"
  with r inv show ?thesis
    by (auto simp: tick_def handler_defs abs_defs iteration_draws_def machine_inv_def Suc_mod_neq split: if_splits)
next
  assume "current_mode s = 2"
  with r inv show ?thesis
    by (auto simp: tick_def handler_defs abs_defs iteration_draws_def machine_inv_def Suc_mod_neq split: if_splits)
next
  assume "current_mode s = 3"
  with r inv show ?thesis
    by (auto simp: tick_def handler_defs abs_defs iteration_draws_def machine_inv_def Suc_mod_neq split: if_splits)
qed

lemma redraw_on_change_witness:
  "machine_inv (booted\<lparr>btnB := \<lparr>latched = True\<rparr>\<rparr>)
   \<and> (\<exists>s'. tick sample_light (booted\<lparr>btnB := \<lparr>latched = True\<rparr>\<rparr>) = Running s'
        \<and> abs_config s' \<noteq> abs_config (booted\<lparr>btnB := \<lparr>latched = True\<rparr>\<rparr>)
        \<and> count_list (iteration_draws (booted\<lparr>btnB := \<lparr>latched = True\<rparr>\<rparr>) s') (Clear TFT_BLACK) = 1)"
proof -
  let ?s = "booted\<lparr>btnB := \<lparr>latched = True\<rparr>\<rparr>"
  have i: "machine_inv ?s" by (simp add: boot_simps machine_inv_def table_defs)
  have "\<exists>s'. tick sample_light ?s = Running s'"
    by (simp add: tick_def handler_defs boot_simps)
  then obtain s' where r: "tick sample_light ?s = Running s'" ..
  have ne: "abs_config s' \<noteq> abs_config ?s"
    using r by (auto simp: tick_def handler_defs boot_simps abs_defs)
  with redraw_on_change [OF i r] i r show ?thesis by blast
qed

section \<open>Runs of button presses\<close>

text \<open>An iteration with only B pending never raises and consumes the press.\<close>

lemma tick_B_running:
  assumes "machine_inv s" "\<not> latched (btnA s)"
  shows "\<exists>s'. tick env s = Running s' \<and> \<not> latched (btnA s') \<and> \<not> latched (btnB s')"
  using machine_inv_modes [OF assms(1)] assms(2)
  by (cases "latched (btnB s)")
    (auto simp: tick_def handler_defs draw_def sensor_call_def)

lemma mode_of_inj:
  "machine_inv s \<Longrightarrow> machine_inv s' \<Longrightarrow> mode_of (current_mode s') = mode_of (current_mode s) \<Longrightarrow>
   current_mode s' = current_mode s"
  using machine_inv_modes [of s] machine_inv_modes [of s'] by (auto simp: mode_of_def)

text \<open>\<open>k\<close> rounds of "press B, run one iteration" move the mode \<open>k\<close> steps round the B ring.\<close>

lemma run_B_rounds:
  assumes "machine_inv s" "\<not> latched (btnA s)"
  shows "\<exists>s'. run s (concat (replicate k [PressB, Tick env])) = Running s' \<and> machine_inv s'
    \<and> \<not> latched (btnA s') \<and> mode_of (current_mode s') = (next_mode_B ^^ k) (mode_of (current_mode s))"
  using assms
proof (induction k arbitrary: s)
  case 0
  then show ?case by simp
next
  case (Suc k)
  let ?p = "s\<lparr>btnB := press (btnB s)\<rparr>"
  have ip: "machine_inv ?p" "\<not> latched (btnA ?p)" "pending ?p = EvB"
    using Suc.prems by (simp_all add: machine_inv_def press_def pending_def)
  obtain t where t: "tick env ?p = Running t" "\<not> latched (btnA t)"
    using tick_B_running [OF ip(1,2)] by blast
  have it: "machine_inv t" using tick_inv [OF ip(1) t(1)] .
  from tick_abs_step [OF ip(1) t(1)]
  have e: "abs_config t = fst (spec_step (abs_config ?p) EvB)" by (simp only: ip(3))
  have "mode (abs_config t) = next_mode_B (mode (abs_config ?p))"
    unfolding e by (rule mode_spec_step_B)
  then have "mode_of (current_mode t) = next_mode_B (mode_of (current_mode s))"
    by (simp add: abs_config_def)
  moreover obtain s' where "run t (concat (replicate k [PressB, Tick env])) = Running s'"
    "machine_inv s'" "\<not> latched (btnA s')"
    "mode_of (current_mode s') = (next_mode_B ^^ k) (mode_of (current_mode t))"
    using Suc.IH [OF it t(2)] by blast
  ultimately show ?case
    using t(1) by (simp add: funpow_swap1)
qed

text \<open>
  C9: with no A press pending, four rounds of "press B, run one loop iteration" bring the
  program back to the mode it started in: B cycles Normal, WavelengthSelect,
  GainSettings, IntegrationSettings, Normal.
\<close>

theorem B_ring_period:
  assumes "reachable s" "\<not> latched (btnA s)"
  shows "\<exists>s'. run s (concat (replicate 4 [PressB, Tick env])) = Running s'
    \<and> current_mode s' = current_mode s"
proof -
  have i: "machine_inv s" using assms(1) by (rule reachable_inv)
  obtain s' where r: "run s (concat (replicate 4 [PressB, Tick env])) = Running s'"
    and i': "machine_inv s'"
    and m: "mode_of (current_mode s') = (next_mode_B ^^ 4) (mode_of (current_mode s))"
    using run_B_rounds [OF i assms(2), of 4 env] by blast
  from m have "mode_of (current_mode s') = mode_of (current_mode s)"
    by (simp only: next_mode_B_period)
  with i i' r show ?thesis by (blast intro: mode_of_inj)
qed

lemma B_ring_period_witness:
  "reachable booted \<and> \<not> latched (btnA booted)
   \<and> (\<exists>s'. run booted (concat (replicate 4 [PressB, Tick sample_light])) = Running s'
        \<and> current_mode s' = 0)"
proof -
  have r: "reachable booted" by (rule reachable.start) (simp add: boot_simps)
  have a: "\<not> latched (btnA booted)" by (simp add: boot_simps)
  have m: "current_mode booted = 0" by (simp add: boot_simps)
  from B_ring_period [OF r a, of sample_light] r a m show ?thesis by simp
qed

text \<open>
  C27: from any reachable state with no A press pending, at most three rounds of
  "press B, run one iteration" return the program to normal mode.
\<close>

theorem B_reaches_normal:
  assumes "reachable s" "\<not> latched (btnA s)"
  shows "\<exists>k \<le> 3. \<exists>s'. run s (concat (replicate k [PressB, Tick env])) = Running s'
    \<and> current_mode s' = 0"
proof -
  have i: "machine_inv s" using assms(1) by (rule reachable_inv)
  obtain k where k: "k \<le> 3" "(next_mode_B ^^ k) (mode_of (current_mode s)) = Normal"
    using next_mode_B_reaches_Normal by blast
  obtain s' where r: "run s (concat (replicate k [PressB, Tick env])) = Running s'"
    and i': "machine_inv s'"
    and m: "mode_of (current_mode s') = (next_mode_B ^^ k) (mode_of (current_mode s))"
    using run_B_rounds [OF i assms(2), of k env] by blast
  have "current_mode s' = 0"
    using m k(2) machine_inv_modes [OF i'] by (auto simp: mode_of_def)
  with k(1) r show ?thesis by blast
qed

lemma B_reaches_normal_witness:
  "reachable booted \<and> \<not> latched (btnA booted)
   \<and> (\<exists>k \<le> 3. \<exists>s'. run booted (concat (replicate k [PressB, Tick sample_light])) = Running s'
        \<and> current_mode s' = 0)"
proof -
  have r: "reachable booted" by (rule reachable.start) (simp add: boot_simps)
  have a: "\<not> latched (btnA booted)" by (simp add: boot_simps)
  from B_reaches_normal [OF r a, of sample_light] r a show ?thesis by simp
qed

end
